theory Spec2Isabelle
  imports
    Complex_Main
    "HOL-Library.Char_ord"
    "HOL-Library.List_Lexorder"
    "HOL-Library.Product_Lexorder"
begin

section \<open>Kiosco POS: the store and the services of \<open>micro-saas.py\<close>\<close>

text \<open>
  The program keeps its data in an SQLite file and reaches it through repository
  classes; the service classes hold the business rules. The embedding keeps the
  tables as lists of rows in one record, \<open>bd\<close>, that every operation takes and
  returns. Each repository method opens its own connection, commits when it returns
  and rolls back when it raises, so a repository method that raises leaves the store
  as it was, and a service method that calls several repository methods is a sequence
  of committed steps.

  Conventions of the embedding:
  \<^item> text is \<open>string\<close>; a \<open>char\<close> stands for one character, the code point of the same
    number (0 to 255), so \<open>length\<close> is Python's \<open>len\<close>. Python's \<open>str.lower\<close> folds the
    letters A to Z and the capital letters of the range 192 to 222; SQLite's \<open>LOWER\<close>
    and \<open>LIKE\<close> fold the letters A to Z only;
  \<^item> Python integers are \<open>int\<close>. SQLite takes integers of 64 bits: binding any other
    integer to a statement raises \<open>OverflowError\<close>;
  \<^item> Python floats and \<open>REAL\<close> values are \<open>doble\<close>: a finite value, an infinity or NaN.
    Comparisons are exact. The rounding of a subtraction and the algorithms of
    Python's \<open>sum\<close> and of SQL's \<open>SUM\<close> are parameters (\<open>aritmetica\<close>), not fixed by the
    embedding. NaN bound to a
    statement is stored as \<open>NULL\<close>, which a \<open>NOT NULL\<close> column refuses with
    \<open>IntegrityError\<close>;
  \<^item> \<open>CURRENT_TIMESTAMP\<close> and \<open>date.today()\<close> are parameters (\<open>ahora\<close>, \<open>hoy\<close>) of the
    operations that read them; a timestamp is the text \<open>YYYY-MM-DD HH:MM:SS\<close>;
  \<^item> an operation that can raise returns \<open>Inl\<close> of the exception. Where the source
    catches it (\<open>except Exception as e\<close>), the result carries the message \<open>ErrorMsg e\<close>.
    The exceptions modelled are the ones the arguments and the contents of the store
    decide; failures of the file system are not modelled.
\<close>

subsection \<open>Exceptions\<close>

datatype excepcion = OverflowError | IntegrityError | OperationalError

text \<open>The integers SQLite takes as a parameter: those of 64 bits, signed.\<close>

definition en_rango_sqlite :: "int \<Rightarrow> bool" where
  "en_rango_sqlite n = (- 9223372036854775808 \<le> n \<and> n \<le> 9223372036854775807)"

subsection \<open>Floating-point values\<close>

datatype doble = Finito real | MasInfinito | MenosInfinito | NaN

text \<open>
  What the embedding leaves open of the arithmetic: \<open>redondear x\<close> is the double
  nearest to the real number \<open>x\<close>; \<open>desborda x\<close> says that \<open>x\<close> is too large in magnitude
  to round to a finite double; \<open>suma_py\<close> is Python's \<open>sum\<close> over a non-empty sequence
  of floats and \<open>suma_sql\<close> is SQL's \<open>SUM\<close> over a non-empty column of \<open>REAL\<close> values (both
  algorithms have changed between versions of Python and of SQLite).
\<close>

record aritmetica =
  redondear :: "real \<Rightarrow> real"
  desborda :: "real \<Rightarrow> bool"
  suma_py :: "doble list \<Rightarrow> doble"
  suma_sql :: "doble list \<Rightarrow> doble"

definition de_real :: "aritmetica \<Rightarrow> real \<Rightarrow> doble" where
  "de_real ar x =
     (if desborda ar x then (if 0 < x then MasInfinito else MenosInfinito)
      else Finito (redondear ar x))"

text \<open>
  Addition of doubles. Adding zero is exact; the sum of two other finite values is
  rounded; infinities of opposite signs give NaN.
\<close>

fun suma_doble :: "aritmetica \<Rightarrow> doble \<Rightarrow> doble \<Rightarrow> doble" where
  "suma_doble ar NaN y = NaN"
| "suma_doble ar x NaN = NaN"
| "suma_doble ar (Finito a) (Finito b) =
     (if a = 0 then Finito b else if b = 0 then Finito a else de_real ar (a + b))"
| "suma_doble ar (Finito a) y = y"
| "suma_doble ar x (Finito b) = x"
| "suma_doble ar MasInfinito MasInfinito = MasInfinito"
| "suma_doble ar MenosInfinito MenosInfinito = MenosInfinito"
| "suma_doble ar MasInfinito MenosInfinito = NaN"
| "suma_doble ar MenosInfinito MasInfinito = NaN"

fun opuesto_doble :: "doble \<Rightarrow> doble" where
  "opuesto_doble (Finito a) = Finito (- a)"
| "opuesto_doble MasInfinito = MenosInfinito"
| "opuesto_doble MenosInfinito = MasInfinito"
| "opuesto_doble NaN = NaN"

definition resta_doble :: "aritmetica \<Rightarrow> doble \<Rightarrow> doble \<Rightarrow> doble" where
  "resta_doble ar x y = suma_doble ar x (opuesto_doble y)"

text \<open>Comparison of doubles: every comparison with NaN is false.\<close>

fun nivel_doble :: "doble \<Rightarrow> int" where
  "nivel_doble MenosInfinito = - 1"
| "nivel_doble (Finito a) = 0"
| "nivel_doble MasInfinito = 1"
| "nivel_doble NaN = 0"

fun valor_doble :: "doble \<Rightarrow> real" where
  "valor_doble (Finito a) = a"
| "valor_doble MasInfinito = 0"
| "valor_doble MenosInfinito = 0"
| "valor_doble NaN = 0"

definition menor_doble :: "doble \<Rightarrow> doble \<Rightarrow> bool" where
  "menor_doble x y =
     (x \<noteq> NaN \<and> y \<noteq> NaN
      \<and> (nivel_doble x < nivel_doble y
         \<or> (nivel_doble x = nivel_doble y \<and> valor_doble x < valor_doble y)))"

definition menor_igual_doble :: "doble \<Rightarrow> doble \<Rightarrow> bool" where
  "menor_igual_doble x y =
     (x \<noteq> NaN \<and> y \<noteq> NaN
      \<and> (nivel_doble x < nivel_doble y
         \<or> (nivel_doble x = nivel_doble y \<and> valor_doble x \<le> valor_doble y)))"

definition mayor_doble :: "doble \<Rightarrow> doble \<Rightarrow> bool" where
  "mayor_doble x y = menor_doble y x"

text \<open>Python's \<open>sum\<close> of floats: the integer 0 for an empty sequence.\<close>

definition suma_python :: "aritmetica \<Rightarrow> doble list \<Rightarrow> doble" where
  "suma_python ar xs = (if xs = [] then Finito 0 else suma_py ar xs)"

text \<open>A float bound to a statement: NaN becomes \<open>NULL\<close>.\<close>

definition sqlite_real :: "doble option \<Rightarrow> doble option" where
  "sqlite_real x = (if x = Some NaN then None else x)"

subsection \<open>Text functions of SQL and Python\<close>

text \<open>SQLite's \<open>LOWER\<close> on one character: the letters A to Z move to a to z.\<close>

definition lower_char :: "char \<Rightarrow> char" where
  "lower_char c =
     (case map_of (zip ''ABCDEFGHIJKLMNOPQRSTUVWXYZ'' ''abcdefghijklmnopqrstuvwxyz'') c of
        Some d \<Rightarrow> d
      | None \<Rightarrow> c)"




text \<open>
  SQLite's \<open>texto LIKE patron\<close> with no \<open>ESCAPE\<close> clause: \<open>%\<close> in the pattern stands for
  any run of characters, \<open>_\<close> for any one character, and every other character
  matches itself without regard to the case of the letters A to Z.
\<close>

fun like :: "string \<Rightarrow> string \<Rightarrow> bool" where
  "like [] s = (s = [])"
| "like (p # ps) [] = (p = CHR ''%'' \<and> like ps [])"
| "like (p # ps) (c # t) =
     (if p = CHR ''%'' then like ps (c # t) \<or> like (p # ps) t
      else (p = CHR ''_'' \<or> lower_char p = lower_char c) \<and> like ps t)"

definition sql_like :: "string \<Rightarrow> string \<Rightarrow> bool" where
  "sql_like texto patron = like patron texto"

text \<open>\<open>DATE(fecha)\<close> of a timestamp \<open>YYYY-MM-DD HH:MM:SS\<close>: its first ten characters.\<close>

definition sql_date :: "string \<Rightarrow> string" where
  "sql_date fecha = take 10 fecha"

subsection \<open>Python number formatting\<close>

text \<open>The decimal digits of a natural number, as \<open>str\<close> gives them.\<close>

definition digito :: "nat \<Rightarrow> char" where
  "digito d = ''0123456789'' ! d"

fun digitos :: "nat \<Rightarrow> string" where
  "digitos n = (if n < 10 then [digito n] else digitos (n div 10) @ [digito (n mod 10)])"

text \<open>The format \<open>{numero:03d}\<close>: the digits, filled with zeros on the left up to width 3.\<close>

definition formato_03d :: "nat \<Rightarrow> string" where
  "formato_03d n = replicate (3 - length (digitos n)) (CHR ''0'') @ digitos n"

subsection \<open>Domain models and tables\<close>

text \<open>The dataclass \<open>Categoria\<close>, also the row of table \<open>categorias\<close>.\<close>

record categoria =
  c_id :: "int option"
  c_nombre :: string
  c_prefijo :: string
  c_descripcion :: string
  c_activo :: bool
  c_creado_en :: "string option"

text \<open>
  The dataclass \<open>Producto\<close>, also the row of table \<open>productos\<close>. Column \<open>precio\<close> may hold
  \<open>NULL\<close>, which reads as \<open>None\<close>.
\<close>

record producto =
  p_id :: "int option"
  p_sku :: string
  p_nombre :: string
  p_descripcion :: string
  p_cantidad :: int
  p_precio :: "doble option"
  p_stock_minimo :: int
  p_categoria :: string
  p_creado_en :: "string option"
  p_actualizado_en :: "string option"

text \<open>The dataclass \<open>ItemCarrito\<close>.\<close>

record item_carrito =
  i_producto_id :: int
  i_sku :: string
  i_nombre :: string
  i_cantidad :: int
  i_precio_unitario :: doble
  i_subtotal :: doble

text \<open>Rows of the tables \<open>ventas\<close>, \<open>detalles_venta\<close> and \<open>movimientos_caja\<close>.\<close>

record venta =
  v_id :: int
  v_total :: doble
  v_metodo_pago :: string
  v_fecha :: string
  v_usuario :: string

record detalle_venta =
  d_id :: int
  d_venta_id :: int
  d_producto_id :: int
  d_sku :: string
  d_nombre_producto :: string
  d_cantidad :: int
  d_precio_unitario :: doble
  d_subtotal :: doble

datatype tipo_movimiento = RETIRO | INGRESO

record movimiento_caja =
  m_id :: int
  m_fecha :: string
  m_tipo :: tipo_movimiento
  m_monto :: doble
  m_concepto :: string
  m_usuario :: string

text \<open>
  The database. The three \<open>sec_\<close> fields are the \<open>AUTOINCREMENT\<close> sequences of the
  tables the modelled operations insert into: the largest id given out so far. When
  a sequence has reached the largest 64-bit integer the table takes no more rows and
  the insert raises \<open>OperationalError\<close>.
\<close>

record bd =
  categorias :: "categoria list"
  productos :: "producto list"
  ventas :: "venta list"
  detalles_venta :: "detalle_venta list"
  movimientos_caja :: "movimiento_caja list"
  sec_ventas :: int
  sec_detalles :: int
  sec_movimientos :: int

text \<open>
  What the services hand back as their message. Each constructor stands for one
  format string of the source:
  \<^item> \<open>CarritoVacio\<close>: "Carrito vacio";
  \<^item> \<open>StockInsuficiente n\<close>: "Stock insuficiente para \{n\}";
  \<^item> \<open>VentaCompletada k\<close>: "Venta #\{k\} completada";
  \<^item> \<open>MontoNoPositivo\<close>: "El monto debe ser positivo";
  \<^item> \<open>FondosInsuficientes d\<close>: "Fondos insuficientes. Disponible: $\{d:.2f\}";
  \<^item> \<open>RetiroRegistrado m\<close>: "Retiro de $\{m:.2f\} registrado";
  \<^item> \<open>ProductoActualizado\<close>: "Producto actualizado";
  \<^item> \<open>NoSePudoActualizar\<close>: "No se pudo actualizar";
  \<^item> \<open>ErrorMsg e\<close>: "Error: \{e\}", for the exception \<open>e\<close> that was caught;
  \<^item> \<open>IngreseConcepto\<close>: "Ingrese un concepto" (the cash tab's error box).
\<close>

datatype mensaje =
    CarritoVacio
  | StockInsuficiente string
  | VentaCompletada int
  | MontoNoPositivo
  | FondosInsuficientes doble
  | RetiroRegistrado doble
  | ProductoActualizado
  | NoSePudoActualizar
  | ErrorMsg excepcion
  | IngreseConcepto

subsection \<open>RepositorioCategoria and ServicioCategoria\<close>

text \<open>
  \<open>SELECT * FROM categorias WHERE id = ?\<close>, first row or \<open>None\<close>; binding an id that is
  not of 64 bits raises.
\<close>

definition repo_categoria_obtener_por_id :: "bd \<Rightarrow> int \<Rightarrow> excepcion + categoria option" where
  "repo_categoria_obtener_por_id b categoria_id =
     (if \<not> en_rango_sqlite categoria_id then Inl OverflowError
      else Inr (find (\<lambda>c. c_id c = Some categoria_id) (categorias b)))"

definition servicio_categoria_obtener_por_id :: "bd \<Rightarrow> int \<Rightarrow> excepcion + categoria option" where
  "servicio_categoria_obtener_por_id b categoria_id =
     repo_categoria_obtener_por_id b categoria_id"

subsection \<open>RepositorioProducto\<close>





text \<open>
  \<open>SELECT * FROM productos WHERE id = ?\<close>, first row or \<open>None\<close>; binding an id that is
  not of 64 bits raises.
\<close>

definition repo_producto_obtener_por_id :: "bd \<Rightarrow> int \<Rightarrow> excepcion + producto option" where
  "repo_producto_obtener_por_id b producto_id =
     (if \<not> en_rango_sqlite producto_id then Inl OverflowError
      else Inr (find (\<lambda>p. p_id p = Some producto_id) (productos b)))"

text \<open>\<open>SELECT COUNT(*) FROM productos WHERE sku LIKE '\{prefijo\}%'\<close>, plus one.\<close>

definition repo_producto_obtener_siguiente_numero_sku :: "bd \<Rightarrow> string \<Rightarrow> nat" where
  "repo_producto_obtener_siguiente_numero_sku b prefijo =
     length (filter (\<lambda>p. sql_like (p_sku p) (prefijo @ ''%'')) (productos b)) + 1"

text \<open>
  \<open>actualizar_stock\<close>: the conditional update
  \<open>SET cantidad = cantidad - ?, actualizado_en = CURRENT_TIMESTAMP WHERE id = ? AND cantidad >= ?\<close>.
  The result is \<open>cursor.rowcount > 0\<close>; binding a quantity or an id that is not of 64
  bits raises and changes nothing. The difference is taken over the integers (a
  difference beyond 64 bits, which only a negative quantity sold can give, SQLite
  would keep as a float of about that value).
\<close>

definition fila_con_stock :: "int \<Rightarrow> int \<Rightarrow> producto \<Rightarrow> bool" where
  "fila_con_stock producto_id cantidad_vendida p =
     (p_id p = Some producto_id \<and> p_cantidad p \<ge> cantidad_vendida)"

definition repo_producto_actualizar_stock ::
    "string \<Rightarrow> bd \<Rightarrow> int \<Rightarrow> int \<Rightarrow> (excepcion + bool) \<times> bd" where
  "repo_producto_actualizar_stock ahora b producto_id cantidad_vendida =
     (if \<not> en_rango_sqlite cantidad_vendida \<or> \<not> en_rango_sqlite producto_id
      then (Inl OverflowError, b)
      else
        let rowcount = length (filter (fila_con_stock producto_id cantidad_vendida) (productos b));
            filas = map (\<lambda>p. if fila_con_stock producto_id cantidad_vendida p
                              then p\<lparr> p_cantidad := p_cantidad p - cantidad_vendida,
                                      p_actualizado_en := Some ahora \<rparr>
                              else p) (productos b)
        in (Inr (rowcount > 0), b\<lparr> productos := filas \<rparr>))"

text \<open>
  \<open>actualizar\<close>: \<open>UPDATE productos SET nombre, descripcion, cantidad, precio, stock_minimo,
  categoria, actualizado_en = CURRENT_TIMESTAMP WHERE id = ?\<close>. A \<open>Producto\<close> whose id is
  \<open>None\<close> binds \<open>NULL\<close>, which equals no id. Binding a quantity, a minimum stock or an
  id that is not of 64 bits raises and changes nothing; a price that is NaN is stored
  as \<open>NULL\<close>.
\<close>

definition fila_de_producto :: "producto \<Rightarrow> producto \<Rightarrow> bool" where
  "fila_de_producto producto p = (p_id producto \<noteq> None \<and> p_id p = p_id producto)"

definition enlazable_producto :: "producto \<Rightarrow> bool" where
  "enlazable_producto producto =
     (en_rango_sqlite (p_cantidad producto) \<and> en_rango_sqlite (p_stock_minimo producto)
      \<and> (case p_id producto of None \<Rightarrow> True | Some i \<Rightarrow> en_rango_sqlite i))"

definition repo_producto_actualizar :: "string \<Rightarrow> bd \<Rightarrow> producto \<Rightarrow> (excepcion + bool) \<times> bd" where
  "repo_producto_actualizar ahora b producto =
     (if \<not> enlazable_producto producto then (Inl OverflowError, b)
      else
        let rowcount = length (filter (fila_de_producto producto) (productos b));
            filas = map (\<lambda>p. if fila_de_producto producto p
                              then p\<lparr> p_nombre := p_nombre producto,
                                      p_descripcion := p_descripcion producto,
                                      p_cantidad := p_cantidad producto,
                                      p_precio := sqlite_real (p_precio producto),
                                      p_stock_minimo := p_stock_minimo producto,
                                      p_categoria := p_categoria producto,
                                      p_actualizado_en := Some ahora \<rparr>
                              else p) (productos b)
        in (Inr (rowcount > 0), b\<lparr> productos := filas \<rparr>))"

subsection \<open>RepositorioVenta\<close>

text \<open>
  \<open>registrar_venta\<close>: one row in \<open>ventas\<close> (columns \<open>fecha\<close> and \<open>usuario\<close> take their
  defaults), then one row in \<open>detalles_venta\<close> for each item, in order; the result is
  the new sale's id. All of it is one transaction: when a statement raises, nothing
  is inserted. The first statement raises when the sequence of \<open>ventas\<close> is used up
  or the total is NaN (\<open>total REAL NOT NULL\<close>); the statement of an item raises when
  its product id or quantity is not of 64 bits, when the sequence of \<open>detalles_venta\<close>
  is used up, or when its price or subtotal is NaN.
\<close>

definition excepcion_fila_venta :: "bd \<Rightarrow> doble \<Rightarrow> excepcion option" where
  "excepcion_fila_venta b total_v =
     (if \<not> en_rango_sqlite (sec_ventas b + 1) then Some OperationalError
      else if total_v = NaN then Some IntegrityError
      else None)"

definition excepcion_fila_detalle :: "int \<Rightarrow> nat \<times> item_carrito \<Rightarrow> excepcion option" where
  "excepcion_fila_detalle sec ki =
     (case ki of (k, item) \<Rightarrow>
        if \<not> en_rango_sqlite (i_producto_id item) \<or> \<not> en_rango_sqlite (i_cantidad item)
        then Some OverflowError
        else if \<not> en_rango_sqlite (sec + int k + 1) then Some OperationalError
        else if i_precio_unitario item = NaN \<or> i_subtotal item = NaN then Some IntegrityError
        else None)"

text \<open>The exception of the first statement that raises, going through the items in order.\<close>

fun primera_excepcion :: "('a \<Rightarrow> excepcion option) \<Rightarrow> 'a list \<Rightarrow> excepcion option" where
  "primera_excepcion f [] = None"
| "primera_excepcion f (x # xs) =
     (case f x of Some e \<Rightarrow> Some e | None \<Rightarrow> primera_excepcion f xs)"

definition fila_detalle :: "int \<Rightarrow> int \<Rightarrow> nat \<times> item_carrito \<Rightarrow> detalle_venta" where
  "fila_detalle venta_id sec ki =
     (case ki of (k, item) \<Rightarrow>
        \<lparr> d_id = sec + int k + 1, d_venta_id = venta_id,
          d_producto_id = i_producto_id item, d_sku = i_sku item,
          d_nombre_producto = i_nombre item, d_cantidad = i_cantidad item,
          d_precio_unitario = i_precio_unitario item, d_subtotal = i_subtotal item \<rparr>)"

definition repo_venta_registrar_venta ::
    "string \<Rightarrow> bd \<Rightarrow> item_carrito list \<Rightarrow> doble \<Rightarrow> string \<Rightarrow> (excepcion + int) \<times> bd" where
  "repo_venta_registrar_venta ahora b items total_v metodo_pago =
     (case excepcion_fila_venta b total_v of
        Some e \<Rightarrow> (Inl e, b)
      | None \<Rightarrow>
          (case primera_excepcion (excepcion_fila_detalle (sec_detalles b)) (enumerate 0 items) of
             Some e \<Rightarrow> (Inl e, b)
           | None \<Rightarrow>
               let venta_id = sec_ventas b + 1;
                   fila = \<lparr> v_id = venta_id, v_total = total_v, v_metodo_pago = metodo_pago,
                            v_fecha = ahora, v_usuario = ''CAJERO'' \<rparr>;
                   detalles = map (fila_detalle venta_id (sec_detalles b)) (enumerate 0 items)
               in (Inr venta_id,
                   b\<lparr> ventas := ventas b @ [fila],
                      detalles_venta := detalles_venta b @ detalles,
                      sec_ventas := venta_id,
                      sec_detalles := sec_detalles b + int (length items) \<rparr>)))"

text \<open>
  \<open>obtener_ventas_dia\<close>: the sales whose \<open>DATE(fecha)\<close> is today, latest first; sales with
  the same timestamp stay in the order of the table.
\<close>

definition repo_venta_obtener_ventas_dia :: "string \<Rightarrow> bd \<Rightarrow> venta list" where
  "repo_venta_obtener_ventas_dia hoy b =
     rev (sort_key v_fecha (rev (filter (\<lambda>v. sql_date (v_fecha v) = hoy) (ventas b))))"

text \<open>
  \<open>registrar_retiro\<close>: one row of kind \<open>RETIRO\<close> in \<open>movimientos_caja\<close>; it raises when the
  sequence is used up or the amount is NaN (\<open>monto REAL NOT NULL\<close>).
\<close>

definition repo_venta_registrar_retiro ::
    "string \<Rightarrow> bd \<Rightarrow> doble \<Rightarrow> string \<Rightarrow> (excepcion + int) \<times> bd" where
  "repo_venta_registrar_retiro ahora b monto concepto =
     (if \<not> en_rango_sqlite (sec_movimientos b + 1) then (Inl OperationalError, b)
      else if monto = NaN then (Inl IntegrityError, b)
      else
        let nuevo_id = sec_movimientos b + 1;
            fila = \<lparr> m_id = nuevo_id, m_fecha = ahora, m_tipo = RETIRO, m_monto = monto,
                     m_concepto = concepto, m_usuario = ''CAJERO'' \<rparr>
        in (Inr nuevo_id,
            b\<lparr> movimientos_caja := movimientos_caja b @ [fila],
               sec_movimientos := nuevo_id \<rparr>))"

text \<open>
  \<open>total_retiros_dia\<close>: \<open>COALESCE(SUM(monto), 0)\<close> over today's rows of kind \<open>RETIRO\<close>;
  \<open>SUM\<close> over no row is \<open>NULL\<close>, which \<open>COALESCE\<close> turns into 0.
\<close>

definition repo_venta_total_retiros_dia :: "aritmetica \<Rightarrow> string \<Rightarrow> bd \<Rightarrow> doble" where
  "repo_venta_total_retiros_dia ar hoy b =
     (let montos = map m_monto
            (filter (\<lambda>m. sql_date (m_fecha m) = hoy \<and> m_tipo m = RETIRO) (movimientos_caja b))
      in if montos = [] then Finito 0 else suma_sql ar montos)"

subsection \<open>ServicioProducto\<close>


text \<open>\<open>generar_sku_sugerido\<close> has no \<open>try\<close>: an exception of the lookup goes on to the caller.\<close>

definition servicio_producto_generar_sku_sugerido :: "bd \<Rightarrow> int \<Rightarrow> excepcion + string" where
  "servicio_producto_generar_sku_sugerido b categoria_id =
     (case servicio_categoria_obtener_por_id b categoria_id of
        Inl e \<Rightarrow> Inl e
      | Inr None \<Rightarrow> Inr []
      | Inr (Some categoria) \<Rightarrow>
          Inr (c_prefijo categoria @
               formato_03d (repo_producto_obtener_siguiente_numero_sku b (c_prefijo categoria))))"

definition servicio_producto_actualizar ::
    "string \<Rightarrow> bd \<Rightarrow> producto \<Rightarrow> (bool \<times> mensaje) \<times> bd" where
  "servicio_producto_actualizar ahora b producto =
     (case repo_producto_actualizar ahora b producto of
        (Inl e, b') \<Rightarrow> ((False, ErrorMsg e), b')
      | (Inr hecho, b') \<Rightarrow>
          if hecho then ((True, ProductoActualizado), b')
          else ((False, NoSePudoActualizar), b'))"

definition servicio_producto_actualizar_stock ::
    "string \<Rightarrow> bd \<Rightarrow> int \<Rightarrow> int \<Rightarrow> (excepcion + bool) \<times> bd" where
  "servicio_producto_actualizar_stock ahora b producto_id cantidad =
     repo_producto_actualizar_stock ahora b producto_id cantidad"

subsection \<open>ServicioVenta\<close>

definition servicio_venta_procesar_venta ::
    "aritmetica \<Rightarrow> string \<Rightarrow> bd \<Rightarrow> item_carrito list \<Rightarrow> string
       \<Rightarrow> (bool \<times> mensaje \<times> int option) \<times> bd" where
  "servicio_venta_procesar_venta ar ahora b items metodo_pago =
     (if items = [] then ((False, CarritoVacio, None), b)
      else
        let total_v = suma_python ar (map i_subtotal items) in
        case repo_venta_registrar_venta ahora b items total_v metodo_pago of
          (Inl e, b') \<Rightarrow> ((False, ErrorMsg e, None), b')
        | (Inr venta_id, b') \<Rightarrow> ((True, VentaCompletada venta_id, Some venta_id), b'))"

definition servicio_venta_total_retiros_dia :: "aritmetica \<Rightarrow> string \<Rightarrow> bd \<Rightarrow> doble" where
  "servicio_venta_total_retiros_dia ar hoy b = repo_venta_total_retiros_dia ar hoy b"

definition servicio_venta_registrar_retiro ::
    "string \<Rightarrow> bd \<Rightarrow> doble \<Rightarrow> string \<Rightarrow> doble \<Rightarrow> (bool \<times> mensaje) \<times> bd" where
  "servicio_venta_registrar_retiro ahora b monto concepto disponible =
     (if menor_igual_doble monto (Finito 0) then ((False, MontoNoPositivo), b)
      else if mayor_doble monto disponible then ((False, FondosInsuficientes disponible), b)
      else
        case repo_venta_registrar_retiro ahora b monto concepto of
          (Inl e, b') \<Rightarrow> ((False, ErrorMsg e), b')
        | (Inr nuevo_id, b') \<Rightarrow> ((True, RetiroRegistrado monto), b'))"

subsection \<open>ServicioPOS\<close>

text \<open>
  The validation loop of \<open>procesar_venta\<close>: the first item whose product is missing
  or has less than the requested quantity, if there is one. The loop is outside the
  \<open>try\<close>: when a lookup raises, so does \<open>procesar_venta\<close>.
\<close>

fun primer_sin_stock :: "bd \<Rightarrow> item_carrito list \<Rightarrow> excepcion + item_carrito option" where
  "primer_sin_stock b [] = Inr None"
| "primer_sin_stock b (item # items) =
     (case repo_producto_obtener_por_id b (i_producto_id item) of
        Inl e \<Rightarrow> Inl e
      | Inr None \<Rightarrow> Inr (Some item)
      | Inr (Some producto) \<Rightarrow>
          if p_cantidad producto < i_cantidad item then Inr (Some item)
          else primer_sin_stock b items)"

text \<open>
  The decrement loop of \<open>procesar_venta\<close>; the result of each \<open>actualizar_stock\<close> is
  dropped. The loop ends at the first call that raises; the decrements made before
  it stay.
\<close>

fun descontar_items :: "string \<Rightarrow> bd \<Rightarrow> item_carrito list \<Rightarrow> excepcion option \<times> bd" where
  "descontar_items ahora b [] = (None, b)"
| "descontar_items ahora b (item # items) =
     (case repo_producto_actualizar_stock ahora b (i_producto_id item) (i_cantidad item) of
        (Inl e, b') \<Rightarrow> (Some e, b')
      | (Inr hecho, b') \<Rightarrow> descontar_items ahora b' items)"

definition servicio_pos_procesar_venta ::
    "aritmetica \<Rightarrow> string \<Rightarrow> bd \<Rightarrow> item_carrito list \<Rightarrow> string
       \<Rightarrow> (excepcion + bool \<times> mensaje \<times> int option) \<times> bd" where
  "servicio_pos_procesar_venta ar ahora b items metodo_pago =
     (if items = [] then (Inr (False, CarritoVacio, None), b)
      else
        case primer_sin_stock b items of
          Inl e \<Rightarrow> (Inl e, b)
        | Inr (Some item) \<Rightarrow> (Inr (False, StockInsuficiente (i_nombre item), None), b)
        | Inr None \<Rightarrow>
            let total_v = suma_python ar (map i_subtotal items) in
            case repo_venta_registrar_venta ahora b items total_v metodo_pago of
              (Inl e, b') \<Rightarrow> (Inr (False, ErrorMsg e, None), b')
            | (Inr venta_id, b') \<Rightarrow>
                (case descontar_items ahora b' items of
                   (Some e, b'') \<Rightarrow> (Inr (False, ErrorMsg e, None), b'')
                 | (None, b'') \<Rightarrow> (Inr (True, VentaCompletada venta_id, Some venta_id), b'')))"

definition servicio_pos_obtener_ventas_dia :: "string \<Rightarrow> bd \<Rightarrow> venta list" where
  "servicio_pos_obtener_ventas_dia hoy b = repo_venta_obtener_ventas_dia hoy b"

definition servicio_pos_total_retiros_dia :: "aritmetica \<Rightarrow> string \<Rightarrow> bd \<Rightarrow> doble" where
  "servicio_pos_total_retiros_dia ar hoy b = repo_venta_total_retiros_dia ar hoy b"

definition servicio_pos_efectivo_disponible :: "aritmetica \<Rightarrow> string \<Rightarrow> bd \<Rightarrow> doble" where
  "servicio_pos_efectivo_disponible ar hoy b =
     (let ventas_dia = servicio_pos_obtener_ventas_dia hoy b;
          total_ventas = (if ventas_dia \<noteq> [] then suma_python ar (map v_total ventas_dia)
                          else Finito 0);
          retiros = servicio_pos_total_retiros_dia ar hoy b
      in resta_doble ar total_ventas retiros)"

definition servicio_pos_registrar_retiro ::
    "aritmetica \<Rightarrow> string \<Rightarrow> string \<Rightarrow> bd \<Rightarrow> doble \<Rightarrow> string \<Rightarrow> (bool \<times> mensaje) \<times> bd" where
  "servicio_pos_registrar_retiro ar hoy ahora b monto concepto =
     (if menor_igual_doble monto (Finito 0) then ((False, MontoNoPositivo), b)
      else
        let disponible = servicio_pos_efectivo_disponible ar hoy b in
        if mayor_doble monto disponible then ((False, FondosInsuficientes disponible), b)
        else
          case repo_venta_registrar_retiro ahora b monto concepto of
            (Inl e, b') \<Rightarrow> ((False, ErrorMsg e), b')
          | (Inr nuevo_id, b') \<Rightarrow> ((True, RetiroRegistrado monto), b'))"

subsection \<open>The cash tab, \<open>PestanaCaja.registrar_retiro\<close>\<close>

text \<open>
  The dialog reads \<open>disponible = servicio_venta.total_retiros_dia()\<close> when it opens;
  its button parses the amount, refuses an empty memo and calls
  \<open>ServicioVenta.registrar_retiro(monto, concepto, disponible)\<close>. The model takes the
  parsed amount and the stripped memo.
\<close>

definition pestana_caja_registrar_retiro ::
    "aritmetica \<Rightarrow> string \<Rightarrow> string \<Rightarrow> bd \<Rightarrow> doble \<Rightarrow> string \<Rightarrow> (bool \<times> mensaje) \<times> bd" where
  "pestana_caja_registrar_retiro ar hoy ahora b monto concepto =
     (let disponible = servicio_venta_total_retiros_dia ar hoy b in
        if concepto = [] then ((False, IngreseConcepto), b)
        else servicio_venta_registrar_retiro ahora b monto concepto disponible)"

subsection \<open>The sales tab, \<open>PestanaVentas.procesar_pago\<close>\<close>

text \<open>
  The application's own way to a sale: the same stock check as
  \<open>ServicioPOS.procesar_venta\<close>, then the payment dialog, whose \<open>resultado\<close> is \<open>None\<close>
  when it is cancelled and the payment method otherwise; then one
  \<open>ServicioProducto.actualizar_stock\<close> for each item (the result is dropped), then
  \<open>ServicioVenta.procesar_venta\<close>. Only the store is modelled, not the message boxes;
  an exception of a lookup or of a decrement ends the handler, and the store stays as
  the calls before it left it.
\<close>

fun descontar_items_ui :: "string \<Rightarrow> bd \<Rightarrow> item_carrito list \<Rightarrow> excepcion option \<times> bd" where
  "descontar_items_ui ahora b [] = (None, b)"
| "descontar_items_ui ahora b (item # items) =
     (case servicio_producto_actualizar_stock ahora b (i_producto_id item) (i_cantidad item) of
        (Inl e, b') \<Rightarrow> (Some e, b')
      | (Inr hecho, b') \<Rightarrow> descontar_items_ui ahora b' items)"

definition pestana_ventas_procesar_pago ::
    "aritmetica \<Rightarrow> string \<Rightarrow> bd \<Rightarrow> item_carrito list \<Rightarrow> string option \<Rightarrow> bd" where
  "pestana_ventas_procesar_pago ar ahora b items resultado =
     (if items = [] then b
      else
        case primer_sin_stock b items of
          Inl e \<Rightarrow> b
        | Inr (Some item) \<Rightarrow> b
        | Inr None \<Rightarrow>
            (case resultado of
               None \<Rightarrow> b
             | Some metodo_pago \<Rightarrow>
                 if metodo_pago = [] then b
                 else
                   case descontar_items_ui ahora b items of
                     (Some e, b') \<Rightarrow> b'
                   | (None, b') \<Rightarrow>
                       snd (servicio_venta_procesar_venta ar ahora b' items metodo_pago)))"


subsection \<open>What the specification speaks of\<close>

text \<open>Every recorded quantity is at least 0.\<close>

definition stock_no_negativo :: "bd \<Rightarrow> bool" where
  "stock_no_negativo b = list_all (\<lambda>p. 0 \<le> p_cantidad p) (productos b)"

text \<open>
  A sequence of sales, each through \<open>ServicioPOS.procesar_venta\<close> or through the sales
  tab, each with its own clock reading, cart and payment method (for the sales tab,
  the result of the payment dialog), applied to the store one after the other.
\<close>

datatype venta_propuesta =
    PorServicioPOS string "item_carrito list" string
  | PorPestanaVentas string "item_carrito list" "string option"

fun vender :: "aritmetica \<Rightarrow> bd \<Rightarrow> venta_propuesta list \<Rightarrow> bd" where
  "vender ar b [] = b"
| "vender ar b (PorServicioPOS ahora items metodo_pago # resto) =
     vender ar (snd (servicio_pos_procesar_venta ar ahora b items metodo_pago)) resto"
| "vender ar b (PorPestanaVentas ahora items resultado # resto) =
     vender ar (pestana_ventas_procesar_pago ar ahora b items resultado) resto"

text \<open>
  The rows of \<open>productos\<close> have different ids (\<open>id INTEGER PRIMARY KEY\<close>).
\<close>

definition ids_unicos :: "bd \<Rightarrow> bool" where
  "ids_unicos b = distinct (map p_id (productos b))"

text \<open>
  A line item that cannot be sold, in the specification's words: it references a
  missing product (no row has its product id), or it requests more than the live
  quantity of its product.
\<close>

definition producto_falta :: "bd \<Rightarrow> item_carrito \<Rightarrow> bool" where
  "producto_falta b item = list_all (\<lambda>p. p_id p \<noteq> Some (i_producto_id item)) (productos b)"

definition pide_de_mas :: "bd \<Rightarrow> item_carrito \<Rightarrow> bool" where
  "pide_de_mas b item =
     list_ex (\<lambda>p. p_id p = Some (i_producto_id item) \<and> p_cantidad p < i_cantidad item)
       (productos b)"

definition item_invalido :: "bd \<Rightarrow> item_carrito \<Rightarrow> bool" where
  "item_invalido b item = (producto_falta b item \<or> pide_de_mas b item)"













text \<open>The sales and the withdrawals of a day.\<close>

definition ventas_del_dia :: "string \<Rightarrow> bd \<Rightarrow> venta list" where
  "ventas_del_dia dia b = filter (\<lambda>v. sql_date (v_fecha v) = dia) (ventas b)"

definition retiros_del_dia :: "string \<Rightarrow> bd \<Rightarrow> movimiento_caja list" where
  "retiros_del_dia dia b =
     filter (\<lambda>m. sql_date (m_fecha m) = dia \<and> m_tipo m = RETIRO) (movimientos_caja b)"

text \<open>
  An arithmetic is exact on whole numbers, as that of doubles is: the sums of whole
  numbers whose magnitudes add up to no more than \<open>2^53\<close> are their exact sums, and a
  whole number of magnitude up to \<open>2^53\<close> is a double.
\<close>

definition enteros_chicos :: "int list \<Rightarrow> bool" where
  "enteros_chicos ks = (sum_list (map abs ks) \<le> 9007199254740992)"

definition dobles_de :: "int list \<Rightarrow> doble list" where
  "dobles_de ks = map (\<lambda>k. Finito (of_int k)) ks"

definition exacta_en_enteros :: "aritmetica \<Rightarrow> bool" where
  "exacta_en_enteros ar =
     ((\<forall>ks. ks \<noteq> [] \<and> enteros_chicos ks \<longrightarrow>
          suma_py ar (dobles_de ks) = Finito (of_int (sum_list ks))
          \<and> suma_sql ar (dobles_de ks) = Finito (of_int (sum_list ks)))
      \<and> (\<forall>k. enteros_chicos [k] \<longrightarrow>
            redondear ar (of_int k) = of_int k \<and> \<not> desborda ar (of_int k)))"

text \<open>
  The values a sale binds are all taken by SQLite: the product ids and quantities of
  the items are of 64 bits, no price or subtotal is NaN, and the two sequences have
  ids left.
\<close>

definition item_enlazable :: "item_carrito \<Rightarrow> bool" where
  "item_enlazable item =
     (en_rango_sqlite (i_producto_id item) \<and> en_rango_sqlite (i_cantidad item)
      \<and> i_precio_unitario item \<noteq> NaN \<and> i_subtotal item \<noteq> NaN)"

definition quedan_ids :: "bd \<Rightarrow> nat \<Rightarrow> bool" where
  "quedan_ids b n =
     (en_rango_sqlite (sec_ventas b + 1) \<and> en_rango_sqlite (sec_detalles b + 1)
      \<and> en_rango_sqlite (sec_detalles b + int n))"

text \<open>
  The columns a sale line item is written with, read off a cart item and off a row
  of \<open>detalles_venta\<close> (all but the row's own id).
\<close>

definition columnas_item ::
    "int \<Rightarrow> item_carrito \<Rightarrow> int \<times> int \<times> string \<times> string \<times> int \<times> doble \<times> doble" where
  "columnas_item venta_id item =
     (venta_id, i_producto_id item, i_sku item, i_nombre item, i_cantidad item,
      i_precio_unitario item, i_subtotal item)"

definition columnas_detalle ::
    "detalle_venta \<Rightarrow> int \<times> int \<times> string \<times> string \<times> int \<times> doble \<times> doble" where
  "columnas_detalle d =
     (d_venta_id d, d_producto_id d, d_sku d, d_nombre_producto d, d_cantidad d,
      d_precio_unitario d, d_subtotal d)"

subsection \<open>Example data\<close>

text \<open>An arithmetic with no rounding, which is exact on whole numbers.\<close>

definition aritmetica_sin_sumas :: aritmetica where
  "aritmetica_sin_sumas =
     \<lparr> redondear = (\<lambda>x. x), desborda = (\<lambda>x. False),
       suma_py = (\<lambda>xs. NaN), suma_sql = (\<lambda>xs. NaN) \<rparr>"

definition aritmetica_ideal :: aritmetica where
  "aritmetica_ideal =
     aritmetica_sin_sumas
       \<lparr> suma_py := foldl (suma_doble aritmetica_sin_sumas) (Finito 0),
         suma_sql := foldl (suma_doble aritmetica_sin_sumas) (Finito 0) \<rparr>"

definition bd_vacia :: bd where
  "bd_vacia =
     \<lparr> categorias = [], productos = [], ventas = [], detalles_venta = [],
       movimientos_caja = [], sec_ventas = 0, sec_detalles = 0, sec_movimientos = 0 \<rparr>"

definition fila_producto ::
    "int \<Rightarrow> string \<Rightarrow> string \<Rightarrow> string \<Rightarrow> int \<Rightarrow> real \<Rightarrow> int \<Rightarrow> string \<Rightarrow> producto" where
  "fila_producto i sku nombre descripcion cantidad precio stock_minimo categoria =
     \<lparr> p_id = Some i, p_sku = sku, p_nombre = nombre, p_descripcion = descripcion,
       p_cantidad = cantidad, p_precio = Some (Finito precio), p_stock_minimo = stock_minimo,
       p_categoria = categoria,
       p_creado_en = Some ''2024-03-01 08:00:00'',
       p_actualizado_en = Some ''2024-03-01 08:00:00'' \<rparr>"

definition fila_categoria :: "int \<Rightarrow> string \<Rightarrow> string \<Rightarrow> categoria" where
  "fila_categoria i nombre prefijo =
     \<lparr> c_id = Some i, c_nombre = nombre, c_prefijo = prefijo, c_descripcion = [],
       c_activo = True, c_creado_en = Some ''2024-03-01 08:00:00'' \<rparr>"

text \<open>The six products \<open>_inicializar_datos_ejemplo\<close> creates, with three categories.\<close>

definition bd_kiosco :: bd where
  "bd_kiosco = bd_vacia
     \<lparr> categorias :=
         [fila_categoria 1 ''BEBIDAS'' ''BEB'', fila_categoria 2 ''SNACKS'' ''SNA'',
          fila_categoria 3 ''GOLOSINAS'' ''GOL''],
       productos :=
         [fila_producto 1 ''BEB001'' ''Coca-Cola 600ml'' ''Gaseosa'' 50 25 10 ''Bebidas'',
          fila_producto 2 ''BEB002'' ''Sprite 600ml'' ''Gaseosa'' 40 25 8 ''Bebidas'',
          fila_producto 3 ''BEB003'' ''Agua 500ml'' ''Agua mineral'' 100 15 20 ''Bebidas'',
          fila_producto 4 ''SNA001'' ''Lays 60g'' ''Papas fritas'' 75 20 15 ''Snacks'',
          fila_producto 5 ''SNA002'' ''Doritos 70g'' ''Nachos'' 80 20 15 ''Snacks'',
          fila_producto 6 ''GOL001'' ''Chocolate 50g'' ''Chocolate con leche'' 100 30 20
            ''Golosinas''] \<rparr>"





text \<open>A cart item as \<open>CarritoWidget.agregar\<close> builds it: the subtotal is quantity times price.\<close>

definition item_de :: "int \<Rightarrow> string \<Rightarrow> string \<Rightarrow> int \<Rightarrow> int \<Rightarrow> item_carrito" where
  "item_de producto_id sku nombre cantidad precio =
     \<lparr> i_producto_id = producto_id, i_sku = sku, i_nombre = nombre, i_cantidad = cantidad,
       i_precio_unitario = Finito (of_int precio),
       i_subtotal = Finito (of_int (cantidad * precio)) \<rparr>"

text \<open>
  Carts for the example store: one within stock, one asking for 41 of the 40 Sprite,
  one with a product that is not there, one with a product id of 64 bits and one more
  (\<open>2^63\<close>), one with a quantity of \<open>2^63\<close>.
\<close>

definition carrito_chico :: "item_carrito list" where
  "carrito_chico =
     [item_de 1 ''BEB001'' ''Coca-Cola 600ml'' 2 25, item_de 4 ''SNA001'' ''Lays 60g'' 1 20]"

definition carrito_excedido :: "item_carrito list" where
  "carrito_excedido =
     [item_de 1 ''BEB001'' ''Coca-Cola 600ml'' 2 25, item_de 2 ''BEB002'' ''Sprite 600ml'' 41 25]"

definition carrito_ausente :: "item_carrito list" where
  "carrito_ausente =
     [item_de 9 ''GOL009'' ''Caramelo'' 1 5, item_de 1 ''BEB001'' ''Coca-Cola 600ml'' 2 25]"

definition carrito_id_enorme :: "item_carrito list" where
  "carrito_id_enorme = [item_de 9223372036854775808 ''GOL009'' ''Caramelo'' 1 5]"

definition carrito_cantidad_enorme :: "item_carrito list" where
  "carrito_cantidad_enorme =
     [\<lparr> i_producto_id = 1, i_sku = ''BEB001'', i_nombre = ''Coca-Cola 600ml'',
        i_cantidad = 9223372036854775808, i_precio_unitario = Finito 25,
        i_subtotal = Finito 25 \<rparr>]"

text \<open>Two sales of the small cart, one through each way.\<close>

definition ventas_ejemplo :: "venta_propuesta list" where
  "ventas_ejemplo =
     [PorServicioPOS ''2024-03-05 10:00:00'' carrito_chico ''efectivo'',
      PorPestanaVentas ''2024-03-05 10:05:00'' carrito_chico (Some ''efectivo'')]"

text \<open>
  The day of the specification's withdrawal example: sales of 100 and an earlier
  withdrawal of 30 on 2024-03-05 (and a sale of the day before).
\<close>

definition bd_caja :: bd where
  "bd_caja = bd_vacia
     \<lparr> ventas :=
         [\<lparr> v_id = 1, v_total = Finito 45, v_metodo_pago = ''efectivo'',
            v_fecha = ''2024-03-04 19:30:00'', v_usuario = ''CAJERO'' \<rparr>,
          \<lparr> v_id = 2, v_total = Finito 60, v_metodo_pago = ''efectivo'',
            v_fecha = ''2024-03-05 09:10:00'', v_usuario = ''CAJERO'' \<rparr>,
          \<lparr> v_id = 3, v_total = Finito 40, v_metodo_pago = ''efectivo'',
            v_fecha = ''2024-03-05 11:45:00'', v_usuario = ''CAJERO'' \<rparr>],
       movimientos_caja :=
         [\<lparr> m_id = 1, m_fecha = ''2024-03-05 12:00:00'', m_tipo = RETIRO, m_monto = Finito 30,
            m_concepto = ''proveedor'', m_usuario = ''CAJERO'' \<rparr>],
       sec_ventas := 3, sec_movimientos := 1 \<rparr>"

text \<open>The same day with the withdrawal only.\<close>

definition bd_caja_sin_ventas :: bd where
  "bd_caja_sin_ventas = bd_caja \<lparr> ventas := [], sec_ventas := 0 \<rparr>"

text \<open>One product with 5 in stock, and a cart with two lines of 3 of it.\<close>

definition bd_un_producto :: bd where
  "bd_un_producto = bd_vacia
     \<lparr> productos := [fila_producto 1 ''BEB001'' ''Coca-Cola 600ml'' ''Gaseosa'' 5 25 10 ''Bebidas''] \<rparr>"

definition carrito_doble :: "item_carrito list" where
  "carrito_doble =
     [item_de 1 ''BEB001'' ''Coca-Cola 600ml'' 3 25, item_de 1 ''BEB001'' ''Coca-Cola 600ml'' 3 25]"

text \<open>Product 1 of the example store, edited to a negative quantity and a price of 0.\<close>

definition producto_negativo :: producto where
  "producto_negativo =
     fila_producto 1 ''BEB001'' ''Coca-Cola 600ml'' ''Gaseosa'' (- 5) 0 10 ''Bebidas''"

text \<open>Product 1 of the example store, handed to the update with another SKU.\<close>

definition producto_otro_sku :: producto where
  "producto_otro_sku =
     fila_producto 1 ''ZZZ999'' ''Coca-Cola 600ml'' ''Gaseosa'' 50 25 10 ''Bebidas''"

text \<open>Product 1 of the example store, handed to the update with a quantity of \<open>2^63\<close>.\<close>

definition producto_cantidad_enorme :: producto where
  "producto_cantidad_enorme =
     fila_producto 1 ''BEB001'' ''Coca-Cola 600ml'' ''Gaseosa'' 9223372036854775808 25 10
       ''Bebidas''"


section \<open>Properties\<close>

subsection \<open>Text matching\<close>











subsection \<open>The three-digit format\<close>

declare digitos.simps [simp del]










subsection \<open>SKU suggestion\<close>




text \<open>
  C10, as amended. For a category id of 64 bits that no row of \<open>categorias\<close> carries,
  the suggested SKU is the empty string, and nothing is raised.
\<close>

theorem sku_sugerido_sin_categoria:
  assumes "en_rango_sqlite categoria_id"
    and "Some categoria_id \<notin> c_id ` set (categorias b)"
  shows "servicio_producto_generar_sku_sugerido b categoria_id = Inr []"
proof -
  have "\<not> (\<exists>c. c \<in> set (categorias b) \<and> c_id c = Some categoria_id)"
  proof
    assume "\<exists>c. c \<in> set (categorias b) \<and> c_id c = Some categoria_id"
    then obtain c where c: "c \<in> set (categorias b)" "c_id c = Some categoria_id"
      by blast
    from c(1) have "c_id c \<in> c_id ` set (categorias b)"
      by (rule imageI)
    with c(2) assms(2) show False by simp
  qed
  then have "find (\<lambda>c. c_id c = Some categoria_id) (categorias b) = None"
    by (simp add: find_None_iff)
  then show ?thesis
    using assms(1)
    by (simp add: servicio_producto_generar_sku_sugerido_def servicio_categoria_obtener_por_id_def
        repo_categoria_obtener_por_id_def)
qed

theorem sku_sugerido_sin_categoria_witness:
  "en_rango_sqlite 7 \<and> Some 7 \<notin> c_id ` set (categorias bd_kiosco)
   \<and> servicio_producto_generar_sku_sugerido bd_kiosco 7 = Inr []"
proof -
  have h1: "en_rango_sqlite 7"
    by (simp add: en_rango_sqlite_def)
  have h2: "Some 7 \<notin> c_id ` set (categorias bd_kiosco)"
    by (simp add: bd_kiosco_def bd_vacia_def fila_categoria_def)
  from sku_sugerido_sin_categoria [OF h1 h2] h1 h2 show ?thesis by simp
qed

text \<open>
  C10 as stated fails for the id \<open>2^63\<close>: no category has it, and the lookup raises
  \<open>OverflowError\<close>, which \<open>generar_sku_sugerido\<close> does not catch.
\<close>

theorem sku_sugerido_id_enorme_contraejemplo:
  "Some 9223372036854775808 \<notin> c_id ` set (categorias bd_kiosco)
   \<and> servicio_producto_generar_sku_sugerido bd_kiosco 9223372036854775808 = Inl OverflowError"
  by (simp add: servicio_producto_generar_sku_sugerido_def servicio_categoria_obtener_por_id_def
      repo_categoria_obtener_por_id_def en_rango_sqlite_def bd_kiosco_def bd_vacia_def
      fila_categoria_def)

subsection \<open>Search ranking\<close>








subsection \<open>Sales\<close>

lemma map_enumerate_snd: "map (\<lambda>ki. f (snd ki)) (enumerate n xs) = map f xs"
  by (induction xs arbitrary: n) simp_all

lemma columnas_fila_detalle:
  "columnas_detalle (fila_detalle venta_id sec ki) = columnas_item venta_id (snd ki)"
  by (cases ki) (simp add: columnas_detalle_def fila_detalle_def columnas_item_def)

lemma registrar_venta_productos:
  "productos (snd (repo_venta_registrar_venta ahora b items total_v metodo_pago)) = productos b"
  by (simp add: repo_venta_registrar_venta_def Let_def split: option.splits)

text \<open>With different ids, the row a lookup finds is the only row of that id.\<close>

lemma fila_unica:
  assumes "ids_unicos b" and "p \<in> set (productos b)" and "q \<in> set (productos b)"
    and "p_id p = p_id q"
  shows "p = q"
proof -
  from assms(1) have "inj_on p_id (set (productos b))"
    by (simp add: ids_unicos_def distinct_map)
  then show ?thesis
    using assms(2-4) by (simp add: inj_on_def)
qed

lemma invalido_iff:
  assumes "ids_unicos b"
  shows "item_invalido b item
    = (case find (\<lambda>p. p_id p = Some (i_producto_id item)) (productos b) of
         None \<Rightarrow> True
       | Some p \<Rightarrow> p_cantidad p < i_cantidad item)"
proof (cases "find (\<lambda>p. p_id p = Some (i_producto_id item)) (productos b)")
  case None
  then have "producto_falta b item"
    by (simp add: find_None_iff producto_falta_def list_all_iff)
  with None show ?thesis
    by (simp add: item_invalido_def)
next
  case (Some p)
  then have p: "p \<in> set (productos b)" "p_id p = Some (i_producto_id item)"
    by (auto simp: find_Some_iff)
  then have falta: "\<not> producto_falta b item"
    by (auto simp: producto_falta_def list_all_iff)
  have "pide_de_mas b item = (p_cantidad p < i_cantidad item)"
  proof
    assume "pide_de_mas b item"
    then obtain q where q: "q \<in> set (productos b)" "p_id q = Some (i_producto_id item)"
        "p_cantidad q < i_cantidad item"
      by (auto simp: pide_de_mas_def list_ex_iff)
    with p have "p = q"
      by (intro fila_unica [OF assms]) simp_all
    with q show "p_cantidad p < i_cantidad item" by simp
  next
    assume "p_cantidad p < i_cantidad item"
    with p show "pide_de_mas b item"
      by (auto simp: pide_de_mas_def list_ex_iff)
  qed
  with falta Some show ?thesis
    by (simp add: item_invalido_def)
qed

lemma primer_sin_stock_Cons:
  assumes "ids_unicos b" and "en_rango_sqlite (i_producto_id item)"
  shows "primer_sin_stock b (item # items)
    = (if item_invalido b item then Inr (Some item) else primer_sin_stock b items)"
  using assms(2) invalido_iff [OF assms(1), of item]
  by (simp add: repo_producto_obtener_por_id_def split: option.splits)

text \<open>The validation loop stops at the first item that cannot be sold, if there is one.\<close>

lemma primer_sin_stock_invalido:
  assumes "ids_unicos b"
  shows "\<forall>item \<in> set items. en_rango_sqlite (i_producto_id item) \<Longrightarrow>
   \<exists>item \<in> set items. item_invalido b item \<Longrightarrow>
   \<exists>antes item despues. items = antes @ item # despues
      \<and> (\<forall>x \<in> set antes. \<not> item_invalido b x)
      \<and> item_invalido b item \<and> primer_sin_stock b items = Inr (Some item)"
proof (induction items)
  case Nil
  then show ?case by simp
next
  case (Cons a items)
  have paso: "primer_sin_stock b (a # items)
    = (if item_invalido b a then Inr (Some a) else primer_sin_stock b items)"
    using Cons.prems(1) by (intro primer_sin_stock_Cons [OF assms]) simp
  show ?case
  proof (cases "item_invalido b a")
    case True
    with paso have "a # items = [] @ a # items \<and> (\<forall>x \<in> set []. \<not> item_invalido b x)
      \<and> item_invalido b a \<and> primer_sin_stock b (a # items) = Inr (Some a)" by simp
    then show ?thesis by blast
  next
    case False
    with Cons.prems have "\<forall>item \<in> set items. en_rango_sqlite (i_producto_id item)"
      and "\<exists>item \<in> set items. item_invalido b item" by auto
    from Cons.IH [OF this] obtain antes item despues where
      h: "items = antes @ item # despues" "\<forall>x \<in> set antes. \<not> item_invalido b x"
         "item_invalido b item" "primer_sin_stock b items = Inr (Some item)" by blast
    with False paso have "a # items = (a # antes) @ item # despues
      \<and> (\<forall>x \<in> set (a # antes). \<not> item_invalido b x)
      \<and> item_invalido b item \<and> primer_sin_stock b (a # items) = Inr (Some item)" by simp
    then show ?thesis by blast
  qed
qed

text \<open>
  C3, as amended. In a store whose products have different ids, when a non-empty cart
  whose product ids are of 64 bits has an item that references a missing product or
  requests more than the live quantity of its product, \<open>ServicioPOS.procesar_venta\<close>
  fails with the insufficient-stock message that names the first such item (by the
  name the cart holds), no id, and the store exactly as it was: no row in \<open>ventas\<close> or
  \<open>detalles_venta\<close>, no quantity changed.
\<close>

theorem venta_rechazada_sin_cambios:
  assumes "items \<noteq> []" and "ids_unicos b"
    and "\<forall>item \<in> set items. en_rango_sqlite (i_producto_id item)"
    and "\<exists>item \<in> set items. item_invalido b item"
  shows "\<exists>antes item despues. items = antes @ item # despues
      \<and> (\<forall>x \<in> set antes. \<not> item_invalido b x) \<and> item_invalido b item
      \<and> servicio_pos_procesar_venta ar ahora b items metodo_pago
          = (Inr (False, StockInsuficiente (i_nombre item), None), b)"
proof -
  from primer_sin_stock_invalido [OF assms(2-4)] obtain antes item despues where
    h: "items = antes @ item # despues" "\<forall>x \<in> set antes. \<not> item_invalido b x"
       "item_invalido b item" "primer_sin_stock b items = Inr (Some item)" by blast
  have "servicio_pos_procesar_venta ar ahora b items metodo_pago
          = (Inr (False, StockInsuficiente (i_nombre item), None), b)"
    using assms(1) h(4) by (simp add: servicio_pos_procesar_venta_def)
  with h show ?thesis by blast
qed

theorem venta_rechazada_sin_cambios_witness:
  "carrito_excedido \<noteq> [] \<and> carrito_ausente \<noteq> [] \<and> ids_unicos bd_kiosco
   \<and> pide_de_mas bd_kiosco (item_de 2 ''BEB002'' ''Sprite 600ml'' 41 25)
   \<and> producto_falta bd_kiosco (item_de 9 ''GOL009'' ''Caramelo'' 1 5)
   \<and> (\<exists>antes item despues. carrito_excedido = antes @ item # despues
        \<and> (\<forall>x \<in> set antes. \<not> item_invalido bd_kiosco x) \<and> item_invalido bd_kiosco item
        \<and> servicio_pos_procesar_venta aritmetica_ideal ''2024-03-05 10:00:00'' bd_kiosco
             carrito_excedido ''efectivo''
           = (Inr (False, StockInsuficiente (i_nombre item), None), bd_kiosco))
   \<and> (\<exists>antes item despues. carrito_ausente = antes @ item # despues
        \<and> (\<forall>x \<in> set antes. \<not> item_invalido bd_kiosco x) \<and> item_invalido bd_kiosco item
        \<and> servicio_pos_procesar_venta aritmetica_ideal ''2024-03-05 10:00:00'' bd_kiosco
             carrito_ausente ''efectivo''
           = (Inr (False, StockInsuficiente (i_nombre item), None), bd_kiosco))
   \<and> fst (servicio_pos_procesar_venta aritmetica_ideal ''2024-03-05 10:00:00'' bd_kiosco
             carrito_excedido ''efectivo'')
       = Inr (False, StockInsuficiente ''Sprite 600ml'', None)
   \<and> fst (servicio_pos_procesar_venta aritmetica_ideal ''2024-03-05 10:00:00'' bd_kiosco
             carrito_ausente ''efectivo'')
       = Inr (False, StockInsuficiente ''Caramelo'', None)"
proof -
  have n1: "carrito_excedido \<noteq> []" and n2: "carrito_ausente \<noteq> []"
    by (simp_all add: carrito_excedido_def carrito_ausente_def)
  have u: "ids_unicos bd_kiosco"
    by code_simp
  have r1: "\<forall>item \<in> set carrito_excedido. en_rango_sqlite (i_producto_id item)"
    by (simp add: carrito_excedido_def item_de_def en_rango_sqlite_def)
  have r2: "\<forall>item \<in> set carrito_ausente. en_rango_sqlite (i_producto_id item)"
    by (simp add: carrito_ausente_def item_de_def en_rango_sqlite_def)
  have m: "pide_de_mas bd_kiosco (item_de 2 ''BEB002'' ''Sprite 600ml'' 41 25)"
    by code_simp
  have f: "producto_falta bd_kiosco (item_de 9 ''GOL009'' ''Caramelo'' 1 5)"
    by code_simp
  have i1: "\<exists>item \<in> set carrito_excedido. item_invalido bd_kiosco item"
    using m by (auto simp: carrito_excedido_def item_invalido_def)
  have i2: "\<exists>item \<in> set carrito_ausente. item_invalido bd_kiosco item"
    using f by (auto simp: carrito_ausente_def item_invalido_def)
  have e1: "fst (servicio_pos_procesar_venta aritmetica_ideal ''2024-03-05 10:00:00'' bd_kiosco
             carrito_excedido ''efectivo'')
       = Inr (False, StockInsuficiente ''Sprite 600ml'', None)"
    by code_simp
  have e2: "fst (servicio_pos_procesar_venta aritmetica_ideal ''2024-03-05 10:00:00'' bd_kiosco
             carrito_ausente ''efectivo'')
       = Inr (False, StockInsuficiente ''Caramelo'', None)"
    by code_simp
  from venta_rechazada_sin_cambios
         [OF n1 u r1 i1, of aritmetica_ideal "''2024-03-05 10:00:00''" "''efectivo''"]
       venta_rechazada_sin_cambios
         [OF n2 u r2 i2, of aritmetica_ideal "''2024-03-05 10:00:00''" "''efectivo''"]
       n1 n2 u m f e1 e2
  show ?thesis by blast
qed

text \<open>
  C3 as stated fails for a cart whose item has the product id \<open>2^63\<close>: no product has
  that id, and the lookup of the validation loop, which is outside the \<open>try\<close>, raises
  \<open>OverflowError\<close> instead of the call returning the insufficient-stock message (the
  store is unchanged).
\<close>

theorem venta_id_enorme_contraejemplo:
  "carrito_id_enorme \<noteq> []
   \<and> producto_falta bd_kiosco (item_de 9223372036854775808 ''GOL009'' ''Caramelo'' 1 5)
   \<and> servicio_pos_procesar_venta aritmetica_ideal ''2024-03-05 10:00:00'' bd_kiosco
        carrito_id_enorme ''efectivo''
       = (Inl OverflowError, bd_kiosco)"
  by code_simp

lemma primera_excepcion_detalles:
  "list_all item_enlazable items \<Longrightarrow>
   (\<forall>k < length items. en_rango_sqlite (sec + int (n + k) + 1)) \<Longrightarrow>
   primera_excepcion (excepcion_fila_detalle sec) (enumerate n items) = None"
proof (induction items arbitrary: n)
  case Nil
  then show ?case by simp
next
  case (Cons a items)
  have "0 < length (a # items)" by simp
  with Cons.prems(2) have "en_rango_sqlite (sec + int (n + 0) + 1)" by blast
  then have r: "en_rango_sqlite (sec + int n + 1)" by simp
  from Cons.prems(1) have e: "item_enlazable a" and resto: "list_all item_enlazable items"
    by simp_all
  from r e have primero: "excepcion_fila_detalle sec (n, a) = None"
    by (simp add: excepcion_fila_detalle_def item_enlazable_def)
  have "\<forall>k < length items. en_rango_sqlite (sec + int (Suc n + k) + 1)"
  proof (intro allI impI)
    fix k assume "k < length items"
    then have "Suc k < length (a # items)" by simp
    with Cons.prems(2) have "en_rango_sqlite (sec + int (n + Suc k) + 1)" by blast
    moreover have "n + Suc k = Suc n + k" by simp
    ultimately show "en_rango_sqlite (sec + int (Suc n + k) + 1)" by metis
  qed
  with resto have "primera_excepcion (excepcion_fila_detalle sec) (enumerate (Suc n) items) = None"
    by (rule Cons.IH)
  with primero show ?case by simp
qed

lemma quedan_ids_detalles:
  assumes "quedan_ids b n"
  shows "\<forall>k < n. en_rango_sqlite (sec_detalles b + int (0 + k) + 1)"
proof (intro allI impI)
  fix k assume k: "k < n"
  from assms have lo: "- 9223372036854775808 \<le> sec_detalles b + 1"
    and hi: "sec_detalles b + int n \<le> 9223372036854775807"
    by (simp_all add: quedan_ids_def en_rango_sqlite_def)
  from k have "int k + 1 \<le> int n" by simp
  then have arriba: "sec_detalles b + int k + 1 \<le> sec_detalles b + int n" by simp
  have abajo: "sec_detalles b + 1 \<le> sec_detalles b + int k + 1" by simp
  from lo abajo have "- 9223372036854775808 \<le> sec_detalles b + int k + 1"
    by (rule order_trans)
  moreover from arriba hi have "sec_detalles b + int k + 1 \<le> 9223372036854775807"
    by (rule order_trans)
  ultimately show "en_rango_sqlite (sec_detalles b + int (0 + k) + 1)"
    by (simp add: en_rango_sqlite_def)
qed

lemma servicio_venta_procesar_venta_productos:
  "productos (snd (servicio_venta_procesar_venta ar ahora b items metodo_pago)) = productos b"
proof (cases "items = []")
  case True
  then show ?thesis by (simp add: servicio_venta_procesar_venta_def)
next
  case False
  obtain r b' where eq: "repo_venta_registrar_venta ahora b items
      (suma_python ar (map i_subtotal items)) metodo_pago = (r, b')"
    by (cases "repo_venta_registrar_venta ahora b items
      (suma_python ar (map i_subtotal items)) metodo_pago") blast
  then have "productos b' = productos b"
    using registrar_venta_productos
            [of ahora b items "suma_python ar (map i_subtotal items)" metodo_pago]
    by simp
  with False eq show ?thesis
    by (cases r) (simp_all add: servicio_venta_procesar_venta_def Let_def)
qed

lemma registrar_venta_excepcion:
  "fst (repo_venta_registrar_venta ahora b items total_v metodo_pago) = Inl e \<Longrightarrow>
   snd (repo_venta_registrar_venta ahora b items total_v metodo_pago) = b"
  by (simp add: repo_venta_registrar_venta_def Let_def split: option.splits)

lemma servicio_venta_procesar_venta_fallo:
  assumes "\<not> fst (fst (servicio_venta_procesar_venta ar ahora b items metodo_pago))"
  shows "snd (servicio_venta_procesar_venta ar ahora b items metodo_pago) = b"
proof (cases "items = []")
  case True
  then show ?thesis by (simp add: servicio_venta_procesar_venta_def)
next
  case False
  obtain r b' where eq: "repo_venta_registrar_venta ahora b items
      (suma_python ar (map i_subtotal items)) metodo_pago = (r, b')"
    by (cases "repo_venta_registrar_venta ahora b items
      (suma_python ar (map i_subtotal items)) metodo_pago") blast
  show ?thesis
  proof (cases r)
    case (Inl e)
    with eq registrar_venta_excepcion
           [of ahora b items "suma_python ar (map i_subtotal items)" metodo_pago e]
    have "b' = b" by simp
    with False eq Inl show ?thesis
      by (simp add: servicio_venta_procesar_venta_def Let_def)
  next
    case (Inr venta_id)
    with False eq assms show ?thesis
      by (simp add: servicio_venta_procesar_venta_def Let_def)
  qed
qed

text \<open>
  C8, as amended. \<open>ServicioVenta.procesar_venta\<close> never changes table \<open>productos\<close>: no
  stock is checked and none is taken. For a non-empty cart whose product ids and
  quantities are of 64 bits, with no price, subtotal or total that is NaN, and while
  the two sequences have ids left, it succeeds with the new sale's id, appends one row
  to \<open>ventas\<close> (the total is Python's sum of the subtotals) and one row to
  \<open>detalles_venta\<close> for each item, in order, and keeps the older rows. Whenever it does
  not succeed, the store is as it was.
\<close>

theorem servicio_venta_no_toca_stock:
  "productos (snd (servicio_venta_procesar_venta ar ahora b items metodo_pago)) = productos b
   \<and> (\<not> fst (fst (servicio_venta_procesar_venta ar ahora b items metodo_pago)) \<longrightarrow>
        snd (servicio_venta_procesar_venta ar ahora b items metodo_pago) = b)
   \<and> (items \<noteq> [] \<and> list_all item_enlazable items \<and> quedan_ids b (length items)
        \<and> suma_python ar (map i_subtotal items) \<noteq> NaN \<longrightarrow>
      fst (servicio_venta_procesar_venta ar ahora b items metodo_pago)
           = (True, VentaCompletada (sec_ventas b + 1), Some (sec_ventas b + 1))
      \<and> ventas (snd (servicio_venta_procesar_venta ar ahora b items metodo_pago))
          = ventas b @ [\<lparr> v_id = sec_ventas b + 1,
                           v_total = suma_python ar (map i_subtotal items),
                           v_metodo_pago = metodo_pago, v_fecha = ahora,
                           v_usuario = ''CAJERO'' \<rparr>]
      \<and> take (length (detalles_venta b))
           (detalles_venta (snd (servicio_venta_procesar_venta ar ahora b items metodo_pago)))
          = detalles_venta b
      \<and> map columnas_detalle
           (drop (length (detalles_venta b))
              (detalles_venta (snd (servicio_venta_procesar_venta ar ahora b items metodo_pago))))
          = map (columnas_item (sec_ventas b + 1)) items)"
proof (intro conjI impI)
  show "productos (snd (servicio_venta_procesar_venta ar ahora b items metodo_pago)) = productos b"
    by (rule servicio_venta_procesar_venta_productos)
next
  assume "\<not> fst (fst (servicio_venta_procesar_venta ar ahora b items metodo_pago))"
  then show "snd (servicio_venta_procesar_venta ar ahora b items metodo_pago) = b"
    by (rule servicio_venta_procesar_venta_fallo)
next
  assume h: "items \<noteq> [] \<and> list_all item_enlazable items \<and> quedan_ids b (length items)
        \<and> suma_python ar (map i_subtotal items) \<noteq> NaN"
  then have v: "excepcion_fila_venta b (suma_python ar (map i_subtotal items)) = None"
    by (simp add: excepcion_fila_venta_def quedan_ids_def)
  from h have d: "primera_excepcion (excepcion_fila_detalle (sec_detalles b))
      (enumerate 0 items) = None"
    by (intro primera_excepcion_detalles quedan_ids_detalles) simp_all
  from h v d
  have reg: "repo_venta_registrar_venta ahora b items
        (suma_python ar (map i_subtotal items)) metodo_pago
      = (Inr (sec_ventas b + 1),
         b\<lparr> ventas := ventas b @ [\<lparr> v_id = sec_ventas b + 1,
                           v_total = suma_python ar (map i_subtotal items),
                           v_metodo_pago = metodo_pago, v_fecha = ahora,
                           v_usuario = ''CAJERO'' \<rparr>],
            detalles_venta := detalles_venta b
               @ map (fila_detalle (sec_ventas b + 1) (sec_detalles b)) (enumerate 0 items),
            sec_ventas := sec_ventas b + 1,
            sec_detalles := sec_detalles b + int (length items) \<rparr>)"
    by (simp add: repo_venta_registrar_venta_def Let_def)
  from h have res: "servicio_venta_procesar_venta ar ahora b items metodo_pago
      = ((True, VentaCompletada (sec_ventas b + 1), Some (sec_ventas b + 1)),
         snd (repo_venta_registrar_venta ahora b items
                (suma_python ar (map i_subtotal items)) metodo_pago))"
    by (simp add: servicio_venta_procesar_venta_def Let_def reg)
  show "fst (servicio_venta_procesar_venta ar ahora b items metodo_pago)
           = (True, VentaCompletada (sec_ventas b + 1), Some (sec_ventas b + 1))"
    by (simp add: res)
  show "ventas (snd (servicio_venta_procesar_venta ar ahora b items metodo_pago))
          = ventas b @ [\<lparr> v_id = sec_ventas b + 1,
                           v_total = suma_python ar (map i_subtotal items),
                           v_metodo_pago = metodo_pago, v_fecha = ahora,
                           v_usuario = ''CAJERO'' \<rparr>]"
    by (simp add: res reg)
  show "take (length (detalles_venta b))
           (detalles_venta (snd (servicio_venta_procesar_venta ar ahora b items metodo_pago)))
          = detalles_venta b"
    by (simp add: res reg)
  show "map columnas_detalle
           (drop (length (detalles_venta b))
              (detalles_venta (snd (servicio_venta_procesar_venta ar ahora b items metodo_pago))))
          = map (columnas_item (sec_ventas b + 1)) items"
    by (simp add: res reg columnas_fila_detalle comp_def map_enumerate_snd)
qed

theorem servicio_venta_no_toca_stock_witness:
  "carrito_chico \<noteq> [] \<and> list_all item_enlazable carrito_chico
   \<and> quedan_ids bd_kiosco (length carrito_chico)
   \<and> suma_python aritmetica_ideal (map i_subtotal carrito_chico) = Finito 70
   \<and> fst (servicio_venta_procesar_venta aritmetica_ideal ''2024-03-05 10:00:00'' bd_kiosco
            carrito_chico ''efectivo'')
       = (True, VentaCompletada 1, Some 1)
   \<and> productos (snd (servicio_venta_procesar_venta aritmetica_ideal ''2024-03-05 10:00:00''
        bd_kiosco carrito_chico ''efectivo'')) = productos bd_kiosco
   \<and> map v_total (ventas (snd (servicio_venta_procesar_venta aritmetica_ideal
        ''2024-03-05 10:00:00'' bd_kiosco carrito_chico ''efectivo''))) = [Finito 70]"
proof -
  have h1: "carrito_chico \<noteq> []"
    by (simp add: carrito_chico_def)
  have h2: "list_all item_enlazable carrito_chico"
    by (simp add: carrito_chico_def item_enlazable_def item_de_def en_rango_sqlite_def)
  have h3: "quedan_ids bd_kiosco (length carrito_chico)"
    by (simp add: quedan_ids_def carrito_chico_def bd_kiosco_def bd_vacia_def
        en_rango_sqlite_def)
  have t: "suma_python aritmetica_ideal (map i_subtotal carrito_chico) = Finito 70"
    by (simp add: suma_python_def aritmetica_ideal_def aritmetica_sin_sumas_def
        carrito_chico_def item_de_def de_real_def)
  have s: "sec_ventas bd_kiosco = 0" "ventas bd_kiosco = []"
    by (simp_all add: bd_kiosco_def bd_vacia_def)
  from servicio_venta_no_toca_stock
         [of aritmetica_ideal "''2024-03-05 10:00:00''" bd_kiosco carrito_chico "''efectivo''"]
       h1 h2 h3 t s
  show ?thesis by simp
qed

text \<open>
  C8 as stated fails for a cart whose item has the quantity \<open>2^63\<close>: binding it raises
  \<open>OverflowError\<close>, the transaction is rolled back, and the call returns failure with
  nothing inserted.
\<close>

theorem servicio_venta_cantidad_enorme_contraejemplo:
  "carrito_cantidad_enorme \<noteq> []
   \<and> servicio_venta_procesar_venta aritmetica_ideal ''2024-03-05 10:00:00'' bd_kiosco
        carrito_cantidad_enorme ''efectivo''
       = ((False, ErrorMsg OverflowError, None), bd_kiosco)"
  by code_simp

subsection \<open>Stock never goes below zero\<close>

lemma actualizar_stock_no_negativo:
  "stock_no_negativo b \<Longrightarrow>
   stock_no_negativo (snd (repo_producto_actualizar_stock ahora b producto_id cantidad_vendida))"
  by (auto simp: stock_no_negativo_def repo_producto_actualizar_stock_def Let_def list_all_iff
      fila_con_stock_def)

lemma descontar_items_no_negativo:
  "stock_no_negativo b \<Longrightarrow> stock_no_negativo (snd (descontar_items ahora b items))"
proof (induction items arbitrary: b)
  case Nil
  then show ?case by simp
next
  case (Cons item items)
  obtain r b' where eq:
    "repo_producto_actualizar_stock ahora b (i_producto_id item) (i_cantidad item) = (r, b')"
    by (cases "repo_producto_actualizar_stock ahora b (i_producto_id item) (i_cantidad item)")
       blast
  with actualizar_stock_no_negativo [OF Cons.prems, of ahora "i_producto_id item" "i_cantidad item"]
  have inv: "stock_no_negativo b'" by simp
  from eq inv Cons.IH [OF inv] show ?case
    by (cases r) simp_all
qed

lemma descontar_items_ui_no_negativo:
  "stock_no_negativo b \<Longrightarrow> stock_no_negativo (snd (descontar_items_ui ahora b items))"
proof (induction items arbitrary: b)
  case Nil
  then show ?case by simp
next
  case (Cons item items)
  obtain r b' where eq:
    "repo_producto_actualizar_stock ahora b (i_producto_id item) (i_cantidad item) = (r, b')"
    by (cases "repo_producto_actualizar_stock ahora b (i_producto_id item) (i_cantidad item)")
       blast
  with actualizar_stock_no_negativo [OF Cons.prems, of ahora "i_producto_id item" "i_cantidad item"]
  have inv: "stock_no_negativo b'" by simp
  from eq inv Cons.IH [OF inv] show ?case
    by (cases r) (simp_all add: servicio_producto_actualizar_stock_def)
qed

lemma registrar_venta_no_negativo:
  "stock_no_negativo b \<Longrightarrow>
   stock_no_negativo (snd (repo_venta_registrar_venta ahora b items total_v metodo_pago))"
  by (simp add: stock_no_negativo_def registrar_venta_productos)

lemma servicio_venta_procesar_venta_no_negativo:
  "stock_no_negativo b \<Longrightarrow>
   stock_no_negativo (snd (servicio_venta_procesar_venta ar ahora b items metodo_pago))"
  by (simp add: stock_no_negativo_def servicio_venta_procesar_venta_productos)

text \<open>
  The store \<open>ServicioPOS.procesar_venta\<close> leaves: the one it was given, the one after the
  rows of the sale are in, or that one after the decrement loop.
\<close>

lemma procesar_venta_estado:
  "snd (servicio_pos_procesar_venta ar ahora b items metodo_pago) = b
   \<or> snd (servicio_pos_procesar_venta ar ahora b items metodo_pago)
       = snd (repo_venta_registrar_venta ahora b items
                (suma_python ar (map i_subtotal items)) metodo_pago)
   \<or> snd (servicio_pos_procesar_venta ar ahora b items metodo_pago)
       = snd (descontar_items ahora
                (snd (repo_venta_registrar_venta ahora b items
                        (suma_python ar (map i_subtotal items)) metodo_pago))
                items)"
proof -
  define reg where "reg = repo_venta_registrar_venta ahora b items
      (suma_python ar (map i_subtotal items)) metodo_pago"
  obtain r b' where r: "reg = (r, b')"
    by (cases reg) blast
  obtain e b'' where d: "descontar_items ahora b' items = (e, b'')"
    by (cases "descontar_items ahora b' items") blast
  show ?thesis
    unfolding reg_def [symmetric]
    using r d
    by (cases r; cases e)
       (simp_all add: servicio_pos_procesar_venta_def Let_def reg_def [symmetric]
          split: sum.splits option.splits)
qed

lemma procesar_venta_no_negativo:
  assumes inv: "stock_no_negativo b"
  shows "stock_no_negativo (snd (servicio_pos_procesar_venta ar ahora b items metodo_pago))"
  using procesar_venta_estado [of ar ahora b items metodo_pago] inv
    registrar_venta_no_negativo [OF inv, of ahora items
      "suma_python ar (map i_subtotal items)" metodo_pago]
    descontar_items_no_negativo [OF registrar_venta_no_negativo [OF inv], of ahora ahora items
      "suma_python ar (map i_subtotal items)" metodo_pago items]
  by (elim disjE) simp_all

lemma procesar_pago_estado:
  "pestana_ventas_procesar_pago ar ahora b items resultado = b
   \<or> pestana_ventas_procesar_pago ar ahora b items resultado
       = snd (descontar_items_ui ahora b items)
   \<or> (\<exists>metodo_pago. pestana_ventas_procesar_pago ar ahora b items resultado
         = snd (servicio_venta_procesar_venta ar ahora (snd (descontar_items_ui ahora b items))
                  items metodo_pago))"
proof -
  obtain e b' where d: "descontar_items_ui ahora b items = (e, b')"
    by (cases "descontar_items_ui ahora b items") blast
  show ?thesis
    using d
    by (cases e)
       (auto simp: pestana_ventas_procesar_pago_def split: sum.splits option.splits)
qed

lemma procesar_pago_no_negativo:
  assumes inv: "stock_no_negativo b"
  shows "stock_no_negativo (pestana_ventas_procesar_pago ar ahora b items resultado)"
proof -
  have ui: "stock_no_negativo (snd (descontar_items_ui ahora b items))"
    using inv by (rule descontar_items_ui_no_negativo)
  from procesar_pago_estado [of ar ahora b items resultado] show ?thesis
  proof (elim disjE exE)
    assume "pestana_ventas_procesar_pago ar ahora b items resultado = b"
    with inv show ?thesis by simp
  next
    assume "pestana_ventas_procesar_pago ar ahora b items resultado
       = snd (descontar_items_ui ahora b items)"
    with ui show ?thesis by simp
  next
    fix metodo_pago
    assume "pestana_ventas_procesar_pago ar ahora b items resultado
         = snd (servicio_venta_procesar_venta ar ahora (snd (descontar_items_ui ahora b items))
                  items metodo_pago)"
    with servicio_venta_procesar_venta_no_negativo [OF ui, of ar ahora items metodo_pago]
    show ?thesis by simp
  qed
qed

lemma vender_no_negativo:
  "stock_no_negativo b \<Longrightarrow> stock_no_negativo (vender ar b vs)"
  by (induction ar b vs rule: vender.induct)
     (simp_all add: procesar_venta_no_negativo procesar_pago_no_negativo)

lemma actualizar_stock_filas:
  assumes "k < length (productos b)"
  shows "productos (snd (repo_producto_actualizar_stock ahora b producto_id n)) ! k = productos b ! k
    \<or> (p_id (productos b ! k) = Some producto_id \<and> n \<le> p_cantidad (productos b ! k)
        \<and> productos (snd (repo_producto_actualizar_stock ahora b producto_id n)) ! k
            = (productos b ! k)\<lparr> p_cantidad := p_cantidad (productos b ! k) - n,
                                   p_actualizado_en := Some ahora \<rparr>)"
  using assms
  by (simp add: repo_producto_actualizar_stock_def Let_def fila_con_stock_def)

text \<open>
  C1. \<open>actualizar_stock\<close> leaves a row as it was unless the row has the given id and a
  quantity of at least the requested one, in which case it takes the requested
  quantity off. So from a store whose quantities are all at least 0, they still are
  after any sequence of sales (through \<open>ServicioPOS.procesar_venta\<close> or through the
  sales tab), and also inside a further sale: in \<open>ServicioPOS.procesar_venta\<close> after
  its rows are inserted and after each of its decrements (the first \<open>k\<close> of them, for
  every \<open>k\<close>), and in the sales tab after each of its decrements. This holds whatever
  the arithmetic of the totals, and whether or not a call raises.
\<close>

theorem stock_nunca_negativo:
  assumes "stock_no_negativo b"
  shows "stock_no_negativo (vender ar b vs)
    \<and> (\<forall>k. stock_no_negativo
          (snd (descontar_items ahora
             (snd (repo_venta_registrar_venta ahora (vender ar b vs) items total_v metodo_pago))
             (take k items))))
    \<and> (\<forall>k. stock_no_negativo
          (snd (descontar_items_ui ahora (vender ar b vs) (take k items))))
    \<and> (\<forall>k < length (productos b).
          productos (snd (repo_producto_actualizar_stock ahora b producto_id n)) ! k
            = productos b ! k
          \<or> (p_id (productos b ! k) = Some producto_id \<and> n \<le> p_cantidad (productos b ! k)
              \<and> productos (snd (repo_producto_actualizar_stock ahora b producto_id n)) ! k
                  = (productos b ! k)\<lparr> p_cantidad := p_cantidad (productos b ! k) - n,
                                         p_actualizado_en := Some ahora \<rparr>))"
proof (intro conjI allI impI)
  show "stock_no_negativo (vender ar b vs)"
    using assms by (rule vender_no_negativo)
next
  fix k
  show "stock_no_negativo
          (snd (descontar_items ahora
             (snd (repo_venta_registrar_venta ahora (vender ar b vs) items total_v metodo_pago))
             (take k items)))"
    using assms
    by (intro descontar_items_no_negativo registrar_venta_no_negativo vender_no_negativo)
next
  fix k
  show "stock_no_negativo (snd (descontar_items_ui ahora (vender ar b vs) (take k items)))"
    using assms by (intro descontar_items_ui_no_negativo vender_no_negativo)
next
  fix k assume "k < length (productos b)"
  then show "productos (snd (repo_producto_actualizar_stock ahora b producto_id n)) ! k
            = productos b ! k
          \<or> (p_id (productos b ! k) = Some producto_id \<and> n \<le> p_cantidad (productos b ! k)
              \<and> productos (snd (repo_producto_actualizar_stock ahora b producto_id n)) ! k
                  = (productos b ! k)\<lparr> p_cantidad := p_cantidad (productos b ! k) - n,
                                         p_actualizado_en := Some ahora \<rparr>)"
    by (rule actualizar_stock_filas)
qed

theorem stock_nunca_negativo_witness:
  "stock_no_negativo bd_kiosco
   \<and> stock_no_negativo (vender aritmetica_ideal bd_kiosco ventas_ejemplo)
   \<and> map p_cantidad (productos (vender aritmetica_ideal bd_kiosco ventas_ejemplo))
       = [46, 40, 100, 73, 80, 100]
   \<and> length (ventas (vender aritmetica_ideal bd_kiosco ventas_ejemplo)) = 2"
proof -
  have h: "stock_no_negativo bd_kiosco"
    by code_simp
  have v: "map p_cantidad (productos (vender aritmetica_ideal bd_kiosco ventas_ejemplo))
             = [46, 40, 100, 73, 80, 100]"
    by code_simp
  have l: "length (ventas (vender aritmetica_ideal bd_kiosco ventas_ejemplo)) = 2"
    by code_simp
  from stock_nunca_negativo [OF h, of aritmetica_ideal ventas_ejemplo] h v l
  show ?thesis by blast
qed

subsection \<open>The decrement that finds too little stock\<close>

text \<open>When no row has the id and enough stock, \<open>actualizar_stock\<close> changes nothing and says so.\<close>

lemma actualizar_stock_insuficiente:
  assumes "en_rango_sqlite producto_id" and "en_rango_sqlite n"
    and "\<not> (\<exists>p \<in> set (productos b). fila_con_stock producto_id n p)"
  shows "repo_producto_actualizar_stock ahora b producto_id n = (Inr False, b)"
proof -
  have "filter (fila_con_stock producto_id n) (productos b) = []"
    using assms(3) by (simp add: filter_empty_conv)
  moreover have "map (\<lambda>p. if fila_con_stock producto_id n p
                        then p\<lparr> p_cantidad := p_cantidad p - n, p_actualizado_en := Some ahora \<rparr>
                        else p) (productos b) = productos b"
    using assms(3) by (simp add: map_idI)
  ultimately show ?thesis
    using assms(1,2) by (simp add: repo_producto_actualizar_stock_def Let_def)
qed

text \<open>
  C2 fails in \<open>ServicioPOS.procesar_venta\<close>, which drops the result of
  \<open>actualizar_stock\<close>. With 5 in stock and a cart of two lines of 3, both lines pass the
  validation (each asks for no more than 5); the first decrement leaves 2, the second
  finds too little and returns \<open>False\<close> with the row unchanged, and the sale is reported
  as completed with both lines recorded: 6 sold, 3 taken from stock. This is so
  whatever the arithmetic, as long as the total of the cart (75 and 75) is not NaN.
\<close>

theorem venta_ignora_descuento_fallido:
  assumes "suma_python ar (map i_subtotal carrito_doble) \<noteq> NaN"
  shows "primer_sin_stock bd_un_producto carrito_doble = Inr None
   \<and> fst (servicio_pos_procesar_venta ar ''2024-03-05 10:00:00'' bd_un_producto carrito_doble
        ''efectivo'') = Inr (True, VentaCompletada 1, Some 1)
   \<and> map d_cantidad (detalles_venta (snd (servicio_pos_procesar_venta ar
        ''2024-03-05 10:00:00'' bd_un_producto carrito_doble ''efectivo''))) = [3, 3]
   \<and> map p_cantidad (productos (snd (servicio_pos_procesar_venta ar
        ''2024-03-05 10:00:00'' bd_un_producto carrito_doble ''efectivo''))) = [2]
   \<and> repo_producto_actualizar_stock ''2024-03-05 10:00:00''
        (snd (descontar_items ''2024-03-05 10:00:00'' bd_un_producto (take 1 carrito_doble)))
        1 3
      = (Inr False,
         snd (descontar_items ''2024-03-05 10:00:00'' bd_un_producto (take 1 carrito_doble)))"
  using assms
  by (simp add: servicio_pos_procesar_venta_def repo_venta_registrar_venta_def
      excepcion_fila_venta_def excepcion_fila_detalle_def fila_detalle_def
      repo_producto_obtener_por_id_def repo_producto_actualizar_stock_def fila_con_stock_def
      en_rango_sqlite_def suma_python_def carrito_doble_def item_de_def bd_un_producto_def
      bd_vacia_def fila_producto_def Let_def)

theorem venta_ignora_descuento_fallido_witness:
  "suma_python aritmetica_ideal (map i_subtotal carrito_doble) = Finito 150
   \<and> fst (servicio_pos_procesar_venta aritmetica_ideal ''2024-03-05 10:00:00'' bd_un_producto
        carrito_doble ''efectivo'') = Inr (True, VentaCompletada 1, Some 1)
   \<and> map d_cantidad (detalles_venta (snd (servicio_pos_procesar_venta aritmetica_ideal
        ''2024-03-05 10:00:00'' bd_un_producto carrito_doble ''efectivo''))) = [3, 3]
   \<and> map p_cantidad (productos (snd (servicio_pos_procesar_venta aritmetica_ideal
        ''2024-03-05 10:00:00'' bd_un_producto carrito_doble ''efectivo''))) = [2]"
proof -
  have t: "suma_python aritmetica_ideal (map i_subtotal carrito_doble) = Finito 150"
    by (simp add: suma_python_def aritmetica_ideal_def aritmetica_sin_sumas_def
        carrito_doble_def item_de_def de_real_def)
  then have h: "suma_python aritmetica_ideal (map i_subtotal carrito_doble) \<noteq> NaN"
    by simp
  from venta_ignora_descuento_fallido [OF h] t show ?thesis by simp
qed

subsection \<open>Cash ledger\<close>

lemma exacta_suma_py:
  "exacta_en_enteros ar \<Longrightarrow> ks \<noteq> [] \<Longrightarrow> enteros_chicos ks \<Longrightarrow>
   suma_py ar (dobles_de ks) = Finito (of_int (sum_list ks))"
  by (simp add: exacta_en_enteros_def)

lemma exacta_suma_sql:
  "exacta_en_enteros ar \<Longrightarrow> ks \<noteq> [] \<Longrightarrow> enteros_chicos ks \<Longrightarrow>
   suma_sql ar (dobles_de ks) = Finito (of_int (sum_list ks))"
  by (simp add: exacta_en_enteros_def)

lemma exacta_de_real:
  "exacta_en_enteros ar \<Longrightarrow> enteros_chicos [k] \<Longrightarrow> de_real ar (of_int k) = Finito (of_int k)"
  by (simp add: exacta_en_enteros_def de_real_def)

lemma foldl_suma_ideal:
  "foldl (suma_doble aritmetica_sin_sumas) (Finito a) (dobles_de ks)
     = Finito (a + of_int (sum_list ks))"
  by (induction ks arbitrary: a)
     (simp_all add: dobles_de_def de_real_def aritmetica_sin_sumas_def)

text \<open>The arithmetic with no rounding is exact on whole numbers.\<close>

lemma aritmetica_ideal_exacta: "exacta_en_enteros aritmetica_ideal"
  using foldl_suma_ideal [of 0]
  by (simp add: exacta_en_enteros_def aritmetica_ideal_def)
     (simp add: aritmetica_sin_sumas_def)

text \<open>On a day with no sale and no withdrawal the available cash is 0, whatever the arithmetic.\<close>

lemma efectivo_sin_actividad:
  assumes "ventas_del_dia hoy b = []" and "retiros_del_dia hoy b = []"
  shows "servicio_pos_efectivo_disponible ar hoy b = Finito 0"
  using assms
  by (simp add: servicio_pos_efectivo_disponible_def servicio_pos_obtener_ventas_dia_def
      servicio_pos_total_retiros_dia_def repo_venta_obtener_ventas_dia_def
      repo_venta_total_retiros_dia_def ventas_del_dia_def retiros_del_dia_def
      resta_doble_def Let_def)

text \<open>
  C4 fails on the cash tab. Take any arithmetic that is exact on whole numbers. On the
  day with sales of 100 and a withdrawal of 30 the balance is 70;
  \<open>ServicioPOS.registrar_retiro\<close> records a withdrawal of 70, but the cash tab passes the
  day's withdrawals (30) as the available amount and refuses it. On the day with no
  sale and the same withdrawal the balance is -30, and the cash tab records a
  withdrawal of 20.
\<close>

theorem retiro_pestana_caja_usa_retiros:
  assumes "exacta_en_enteros ar"
  shows "servicio_pos_efectivo_disponible ar ''2024-03-05'' bd_caja = Finito 70
   \<and> fst (servicio_pos_registrar_retiro ar ''2024-03-05'' ''2024-03-05 18:00:00'' bd_caja
        (Finito 70) ''test'') = (True, RetiroRegistrado (Finito 70))
   \<and> pestana_caja_registrar_retiro ar ''2024-03-05'' ''2024-03-05 18:00:00'' bd_caja
        (Finito 70) ''test''
       = ((False, FondosInsuficientes (Finito 30)), bd_caja)
   \<and> servicio_pos_efectivo_disponible ar ''2024-03-05'' bd_caja_sin_ventas = Finito (- 30)
   \<and> fst (pestana_caja_registrar_retiro ar ''2024-03-05'' ''2024-03-05 18:00:00''
        bd_caja_sin_ventas (Finito 20) ''test'') = (True, RetiroRegistrado (Finito 20))"
proof -
  have ventas: "suma_py ar [Finito 40, Finito 60] = Finito 100"
    using exacta_suma_py [OF assms, of "[40, 60]"]
    by (simp add: enteros_chicos_def dobles_de_def)
  have retiros: "suma_sql ar [Finito 30] = Finito 30"
    using exacta_suma_sql [OF assms, of "[30]"]
    by (simp add: enteros_chicos_def dobles_de_def)
  have resta: "de_real ar 70 = Finito 70"
    using exacta_de_real [OF assms, of 70]
    by (simp add: enteros_chicos_def)
  have dia: "repo_venta_obtener_ventas_dia ''2024-03-05'' bd_caja
      = [\<lparr> v_id = 3, v_total = Finito 40, v_metodo_pago = ''efectivo'',
            v_fecha = ''2024-03-05 11:45:00'', v_usuario = ''CAJERO'' \<rparr>,
         \<lparr> v_id = 2, v_total = Finito 60, v_metodo_pago = ''efectivo'',
            v_fecha = ''2024-03-05 09:10:00'', v_usuario = ''CAJERO'' \<rparr>]"
    by (simp add: repo_venta_obtener_ventas_dia_def bd_caja_def bd_vacia_def sql_date_def)
  have dia0: "repo_venta_obtener_ventas_dia ''2024-03-05'' bd_caja_sin_ventas = []"
    by (simp add: repo_venta_obtener_ventas_dia_def bd_caja_sin_ventas_def)
  have tr: "repo_venta_total_retiros_dia ar ''2024-03-05'' bd_caja = Finito 30"
    using retiros
    by (simp add: repo_venta_total_retiros_dia_def bd_caja_def bd_vacia_def sql_date_def)
  have tr0: "repo_venta_total_retiros_dia ar ''2024-03-05'' bd_caja_sin_ventas = Finito 30"
    using retiros
    by (simp add: repo_venta_total_retiros_dia_def bd_caja_sin_ventas_def bd_caja_def
        bd_vacia_def sql_date_def)
  have e: "servicio_pos_efectivo_disponible ar ''2024-03-05'' bd_caja = Finito 70"
    using ventas resta
    by (simp add: servicio_pos_efectivo_disponible_def servicio_pos_obtener_ventas_dia_def
        servicio_pos_total_retiros_dia_def dia tr suma_python_def resta_doble_def)
  have e0: "servicio_pos_efectivo_disponible ar ''2024-03-05'' bd_caja_sin_ventas = Finito (- 30)"
    by (simp add: servicio_pos_efectivo_disponible_def servicio_pos_obtener_ventas_dia_def
        servicio_pos_total_retiros_dia_def dia0 tr0 resta_doble_def)
  have sec: "sec_movimientos bd_caja = 1" "sec_movimientos bd_caja_sin_ventas = 1"
    by (simp_all add: bd_caja_sin_ventas_def bd_caja_def bd_vacia_def)
  have p: "fst (servicio_pos_registrar_retiro ar ''2024-03-05'' ''2024-03-05 18:00:00'' bd_caja
        (Finito 70) ''test'') = (True, RetiroRegistrado (Finito 70))"
    by (simp add: servicio_pos_registrar_retiro_def e repo_venta_registrar_retiro_def sec
        menor_igual_doble_def mayor_doble_def menor_doble_def en_rango_sqlite_def Let_def)
  have c: "pestana_caja_registrar_retiro ar ''2024-03-05'' ''2024-03-05 18:00:00'' bd_caja
        (Finito 70) ''test''
       = ((False, FondosInsuficientes (Finito 30)), bd_caja)"
    by (simp add: pestana_caja_registrar_retiro_def servicio_venta_total_retiros_dia_def tr
        servicio_venta_registrar_retiro_def menor_igual_doble_def mayor_doble_def
        menor_doble_def)
  have c0: "fst (pestana_caja_registrar_retiro ar ''2024-03-05'' ''2024-03-05 18:00:00''
        bd_caja_sin_ventas (Finito 20) ''test'') = (True, RetiroRegistrado (Finito 20))"
    by (simp add: pestana_caja_registrar_retiro_def servicio_venta_total_retiros_dia_def tr0
        servicio_venta_registrar_retiro_def repo_venta_registrar_retiro_def sec
        menor_igual_doble_def mayor_doble_def menor_doble_def en_rango_sqlite_def Let_def)
  from e p c e0 c0 show ?thesis by simp
qed

theorem retiro_pestana_caja_usa_retiros_witness:
  "exacta_en_enteros aritmetica_ideal
   \<and> servicio_pos_efectivo_disponible aritmetica_ideal ''2024-03-05'' bd_caja = Finito 70
   \<and> fst (servicio_pos_registrar_retiro aritmetica_ideal ''2024-03-05''
        ''2024-03-05 18:00:00'' bd_caja (Finito 70) ''test'')
       = (True, RetiroRegistrado (Finito 70))
   \<and> pestana_caja_registrar_retiro aritmetica_ideal ''2024-03-05'' ''2024-03-05 18:00:00''
        bd_caja (Finito 70) ''test''
       = ((False, FondosInsuficientes (Finito 30)), bd_caja)"
  using retiro_pestana_caja_usa_retiros [OF aritmetica_ideal_exacta] aritmetica_ideal_exacta
  by simp

subsection \<open>Product update\<close>

lemma find_por_id_map:
  assumes "\<And>p. p_id (g p) = p_id p"
  shows "find (\<lambda>p. p_id p = Some j) (map g xs) = map_option g (find (\<lambda>p. p_id p = Some j) xs)"
  by (induction xs) (simp_all add: assms)

text \<open>
  C9, as amended. When a row has the id of the product handed in, and the product's
  quantity and minimum stock are of 64 bits, the update succeeds, whatever the values;
  reading the id back gives the old row with the name, description, quantity, price
  (\<open>NULL\<close> for a price that is NaN), minimum stock and category handed in and the time of
  the update, and with its old SKU and creation time; rows of other ids read as before.
\<close>

theorem actualizar_producto_campos:
  assumes fila: "repo_producto_obtener_por_id b i = Inr (Some fila)"
    and ident: "p_id producto = Some i"
    and cantidad: "en_rango_sqlite (p_cantidad producto)"
    and minimo: "en_rango_sqlite (p_stock_minimo producto)"
  shows "fst (servicio_producto_actualizar ahora b producto) = (True, ProductoActualizado)
    \<and> repo_producto_obtener_por_id (snd (servicio_producto_actualizar ahora b producto)) i
        = Inr (Some (fila\<lparr> p_nombre := p_nombre producto,
                            p_descripcion := p_descripcion producto,
                            p_cantidad := p_cantidad producto,
                            p_precio := sqlite_real (p_precio producto),
                            p_stock_minimo := p_stock_minimo producto,
                            p_categoria := p_categoria producto,
                            p_actualizado_en := Some ahora \<rparr>))
    \<and> (p_precio producto \<noteq> Some NaN \<longrightarrow> sqlite_real (p_precio producto) = p_precio producto)
    \<and> (\<forall>j. j \<noteq> i \<longrightarrow>
          repo_producto_obtener_por_id (snd (servicio_producto_actualizar ahora b producto)) j
            = repo_producto_obtener_por_id b j)"
proof -
  define g where "g = (\<lambda>p. if fila_de_producto producto p
                            then p\<lparr> p_nombre := p_nombre producto,
                                    p_descripcion := p_descripcion producto,
                                    p_cantidad := p_cantidad producto,
                                    p_precio := sqlite_real (p_precio producto),
                                    p_stock_minimo := p_stock_minimo producto,
                                    p_categoria := p_categoria producto,
                                    p_actualizado_en := Some ahora \<rparr>
                            else p)"
  have g_id: "\<And>p. p_id (g p) = p_id p"
    by (simp add: g_def)
  have rango: "en_rango_sqlite i"
    using fila by (auto simp: repo_producto_obtener_por_id_def split: if_splits)
  then have buscar: "find (\<lambda>p. p_id p = Some i) (productos b) = Some fila"
    using fila by (simp add: repo_producto_obtener_por_id_def)
  then have en: "fila \<in> set (productos b)" and id_fila: "p_id fila = Some i"
    by (auto simp: find_Some_iff)
  have de: "fila_de_producto producto fila"
    using id_fila ident by (simp add: fila_de_producto_def)
  have enl: "enlazable_producto producto"
    using cantidad minimo ident rango by (simp add: enlazable_producto_def)
  have "filter (fila_de_producto producto) (productos b) \<noteq> []"
    using en de by (auto simp: filter_empty_conv)
  then have res: "servicio_producto_actualizar ahora b producto
      = ((True, ProductoActualizado), b\<lparr> productos := map g (productos b) \<rparr>)"
    using enl
    by (simp add: servicio_producto_actualizar_def repo_producto_actualizar_def Let_def g_def)
  have leer: "\<And>j. repo_producto_obtener_por_id (b\<lparr> productos := map g (productos b) \<rparr>) j
      = map_sum id (map_option g) (repo_producto_obtener_por_id b j)"
    by (simp add: repo_producto_obtener_por_id_def find_por_id_map [OF g_id])
  have c2: "repo_producto_obtener_por_id (b\<lparr> productos := map g (productos b) \<rparr>) i
      = Inr (Some (g fila))"
    by (simp add: leer fila)
  have c3: "repo_producto_obtener_por_id (b\<lparr> productos := map g (productos b) \<rparr>) j
      = repo_producto_obtener_por_id b j" if "j \<noteq> i" for j
  proof (cases "repo_producto_obtener_por_id b j")
    case (Inl e)
    then show ?thesis by (simp add: leer)
  next
    case (Inr r)
    show ?thesis
    proof (cases r)
      case None
      with Inr show ?thesis by (simp add: leer)
    next
      case (Some fj)
      with Inr have "find (\<lambda>p. p_id p = Some j) (productos b) = Some fj"
        by (auto simp: repo_producto_obtener_por_id_def split: if_splits)
      then have "p_id fj = Some j"
        by (auto simp: find_Some_iff)
      with that ident have "g fj = fj"
        by (simp add: g_def fila_de_producto_def)
      with Inr Some show ?thesis by (simp add: leer)
    qed
  qed
  from c2 de have "repo_producto_obtener_por_id (b\<lparr> productos := map g (productos b) \<rparr>) i
      = Inr (Some (fila\<lparr> p_nombre := p_nombre producto,
                          p_descripcion := p_descripcion producto,
                          p_cantidad := p_cantidad producto,
                          p_precio := sqlite_real (p_precio producto),
                          p_stock_minimo := p_stock_minimo producto,
                          p_categoria := p_categoria producto,
                          p_actualizado_en := Some ahora \<rparr>))"
    by (simp add: g_def)
  with c3 show ?thesis
    by (simp add: res sqlite_real_def)
qed

theorem actualizar_producto_campos_witness:
  "repo_producto_obtener_por_id bd_kiosco 1
     = Inr (Some (fila_producto 1 ''BEB001'' ''Coca-Cola 600ml'' ''Gaseosa'' 50 25 10 ''Bebidas''))
   \<and> p_id producto_negativo = Some 1
   \<and> en_rango_sqlite (p_cantidad producto_negativo)
   \<and> en_rango_sqlite (p_stock_minimo producto_negativo)
   \<and> fst (servicio_producto_actualizar ''2024-03-05 10:00:00'' bd_kiosco producto_negativo)
       = (True, ProductoActualizado)
   \<and> map_sum id (map_option p_cantidad) (repo_producto_obtener_por_id
        (snd (servicio_producto_actualizar ''2024-03-05 10:00:00'' bd_kiosco producto_negativo)) 1)
       = Inr (Some (- 5))
   \<and> map_sum id (map_option p_precio) (repo_producto_obtener_por_id
        (snd (servicio_producto_actualizar ''2024-03-05 10:00:00'' bd_kiosco producto_negativo)) 1)
       = Inr (Some (Some (Finito 0)))"
proof -
  have h1: "repo_producto_obtener_por_id bd_kiosco 1
     = Inr (Some (fila_producto 1 ''BEB001'' ''Coca-Cola 600ml'' ''Gaseosa'' 50 25 10 ''Bebidas''))"
    by (simp add: repo_producto_obtener_por_id_def en_rango_sqlite_def bd_kiosco_def
        bd_vacia_def fila_producto_def)
  have h2: "p_id producto_negativo = Some 1"
    by (simp add: producto_negativo_def fila_producto_def)
  have h3: "en_rango_sqlite (p_cantidad producto_negativo)"
    and h4: "en_rango_sqlite (p_stock_minimo producto_negativo)"
    by (simp_all add: producto_negativo_def fila_producto_def en_rango_sqlite_def)
  have v: "p_cantidad producto_negativo = - 5" "p_precio producto_negativo = Some (Finito 0)"
    by (simp_all add: producto_negativo_def fila_producto_def)
  from actualizar_producto_campos [OF h1 h2 h3 h4, of "''2024-03-05 10:00:00''"] h1 h2 h3 h4 v
  show ?thesis by (simp add: sqlite_real_def)
qed

text \<open>
  C9 as stated fails in two ways. On the SKU: the update of product 1 with SKU
  \<open>ZZZ999\<close> succeeds and the stored SKU is still \<open>BEB001\<close>. On the values the store
  takes: the update of product 1 with the quantity \<open>2^63\<close> raises \<open>OverflowError\<close>, which
  \<open>ServicioProducto.actualizar\<close> catches; it returns failure and the store is unchanged.
\<close>

theorem actualizar_producto_sku_contraejemplo:
  "p_id producto_otro_sku = Some 1 \<and> p_sku producto_otro_sku = ''ZZZ999''
   \<and> fst (servicio_producto_actualizar ''2024-03-05 10:00:00'' bd_kiosco producto_otro_sku)
       = (True, ProductoActualizado)
   \<and> map_sum id (map_option p_sku) (repo_producto_obtener_por_id
        (snd (servicio_producto_actualizar ''2024-03-05 10:00:00'' bd_kiosco producto_otro_sku)) 1)
       = Inr (Some ''BEB001'')
   \<and> p_id producto_cantidad_enorme = Some 1
   \<and> servicio_producto_actualizar ''2024-03-05 10:00:00'' bd_kiosco producto_cantidad_enorme
       = ((False, ErrorMsg OverflowError), bd_kiosco)"
  by code_simp

end
